theory Spec2Isabelle
  imports Main "HOL-Library.Word" "HOL-Library.AList"
begin

section \<open>Statement model\<close>

text \<open>
  The evaluator of \<^verbatim>\<open>src/ecsact/interpret/eval.cc\<close> consumes parsed statements.
  The C declarations of the statement structs live in the parser's headers and are
  not part of the evaluator's source file; the types below list exactly the members
  that \<^verbatim>\<open>eval.cc\<close> reads.  A string slice \<^verbatim>\<open>ecsact_statement_sv\<close>
  (pointer and length) is modelled by the string it denotes, a counted array by a list.
\<close>

datatype ecsact_statement_type =
    ECSACT_STATEMENT_NONE
  | ECSACT_STATEMENT_UNKNOWN
  | ECSACT_STATEMENT_PACKAGE
  | ECSACT_STATEMENT_IMPORT
  | ECSACT_STATEMENT_COMPONENT
  | ECSACT_STATEMENT_TRANSIENT
  | ECSACT_STATEMENT_SYSTEM
  | ECSACT_STATEMENT_ACTION
  | ECSACT_STATEMENT_ENUM
  | ECSACT_STATEMENT_ENUM_VALUE
  | ECSACT_STATEMENT_BUILTIN_TYPE_FIELD
  | ECSACT_STATEMENT_USER_TYPE_FIELD
  | ECSACT_STATEMENT_ENTITY_FIELD
  | ECSACT_STATEMENT_SYSTEM_COMPONENT
  | ECSACT_STATEMENT_SYSTEM_GENERATES
  | ECSACT_STATEMENT_SYSTEM_WITH
  | ECSACT_STATEMENT_ENTITY_CONSTRAINT
  | ECSACT_STATEMENT_SYSTEM_NOTIFY
  | ECSACT_STATEMENT_SYSTEM_NOTIFY_COMPONENT

text \<open>
  A parameter value is a tagged union of a 32-bit integer, a bool and a string.  The
  member \<^verbatim>\<open>value\<close> of a parameter is the field \<open>pvalue\<close>.
\<close>

datatype ecsact_statement_parameter_value =
    integer_value "32 word"
  | bool_value bool
  | string_value string

record ecsact_statement_parameter =
  name :: string
  pvalue :: ecsact_statement_parameter_value

datatype ecsact_builtin_type =
    ECSACT_BOOL | ECSACT_I8 | ECSACT_U8 | ECSACT_I16 | ECSACT_U16
  | ECSACT_I32 | ECSACT_U32 | ECSACT_F32 | ECSACT_ENTITY_TYPE

text \<open>
  The capability of a system-component statement is an opaque 32-bit flag word that
  the evaluator only passes on to the registry.
\<close>

type_synonym ecsact_system_capability = "32 word"

text \<open>
  The payload union, one constructor per member that the evaluator reads.  The
  constructor fixes the statement type, as the parser keeps tag and payload in step.
  \<^verbatim>\<open>ECSACT_STATEMENT_ENTITY_FIELD\<close> is evaluated through the builtin-field
  function, which reads the payload as a \<^verbatim>\<open>field_statement\<close>.
\<close>

datatype ecsact_statement_data =
    none_statement
  | unknown_statement
  | package_statement bool string
  | import_statement string
  | component_statement string
  | transient_statement string
  | system_statement string
  | action_statement string
  | enum_statement string
  | enum_value_statement string "32 word"
  | field_statement ecsact_builtin_type string "32 word"
  | user_type_field_statement string string "32 word"
  | entity_field_statement ecsact_builtin_type string "32 word"
  | system_component_statement ecsact_system_capability string "string list"
  | system_generates_statement
  | system_with_statement "string list"
  | entity_constraint_statement bool string
  | system_notify_statement string
  | system_notify_component_statement string string

record ecsact_statement =
  data :: ecsact_statement_data
  parameters :: "ecsact_statement_parameter list"

fun data_type :: "ecsact_statement_data \<Rightarrow> ecsact_statement_type" where
  "data_type none_statement = ECSACT_STATEMENT_NONE"
| "data_type unknown_statement = ECSACT_STATEMENT_UNKNOWN"
| "data_type (package_statement m n) = ECSACT_STATEMENT_PACKAGE"
| "data_type (import_statement n) = ECSACT_STATEMENT_IMPORT"
| "data_type (component_statement n) = ECSACT_STATEMENT_COMPONENT"
| "data_type (transient_statement n) = ECSACT_STATEMENT_TRANSIENT"
| "data_type (system_statement n) = ECSACT_STATEMENT_SYSTEM"
| "data_type (action_statement n) = ECSACT_STATEMENT_ACTION"
| "data_type (enum_statement n) = ECSACT_STATEMENT_ENUM"
| "data_type (enum_value_statement n v) = ECSACT_STATEMENT_ENUM_VALUE"
| "data_type (field_statement t n l) = ECSACT_STATEMENT_BUILTIN_TYPE_FIELD"
| "data_type (user_type_field_statement u n l) = ECSACT_STATEMENT_USER_TYPE_FIELD"
| "data_type (entity_field_statement t n l) = ECSACT_STATEMENT_ENTITY_FIELD"
| "data_type (system_component_statement c n w) = ECSACT_STATEMENT_SYSTEM_COMPONENT"
| "data_type system_generates_statement = ECSACT_STATEMENT_SYSTEM_GENERATES"
| "data_type (system_with_statement w) = ECSACT_STATEMENT_SYSTEM_WITH"
| "data_type (entity_constraint_statement opt n) = ECSACT_STATEMENT_ENTITY_CONSTRAINT"
| "data_type (system_notify_statement n) = ECSACT_STATEMENT_SYSTEM_NOTIFY"
| "data_type (system_notify_component_statement n c) =
     ECSACT_STATEMENT_SYSTEM_NOTIFY_COMPONENT"

definition stype :: "ecsact_statement \<Rightarrow> ecsact_statement_type" where
  "stype s = data_type (data s)"

section \<open>Typed parameter lookup\<close>

text \<open>
  \<^verbatim>\<open>statement_param<int32_t>\<close>, \<^verbatim>\<open>statement_param<bool>\<close> and
  \<^verbatim>\<open>statement_param<std::string_view>\<close> (lines 94 to 166) are the same loop
  over the parameters: a parameter of another name is skipped (\<^verbatim>\<open>continue\<close>),
  a parameter of the looked-up name whose value has another type ends the loop
  (\<^verbatim>\<open>break\<close>), and a parameter of the looked-up name and the requested type
  overwrites \<^verbatim>\<open>result\<close> without leaving the loop.  The loop variable
  \<^verbatim>\<open>result\<close> is the accumulator of the recursion.
\<close>

fun statement_param_int32_loop ::
  "ecsact_statement_parameter list \<Rightarrow> string \<Rightarrow> 32 word option \<Rightarrow> 32 word option" where
  "statement_param_int32_loop [] in_param_name result = result"
| "statement_param_int32_loop (param # rest) in_param_name result =
     (if name param \<noteq> in_param_name
        then statement_param_int32_loop rest in_param_name result
      else (case pvalue param of
              integer_value i \<Rightarrow> statement_param_int32_loop rest in_param_name (Some i)
            | _ \<Rightarrow> result))"

definition statement_param_int32 :: "ecsact_statement \<Rightarrow> string \<Rightarrow> 32 word option" where
  "statement_param_int32 statement in_param_name =
     statement_param_int32_loop (parameters statement) in_param_name None"

fun statement_param_bool_loop ::
  "ecsact_statement_parameter list \<Rightarrow> string \<Rightarrow> bool option \<Rightarrow> bool option" where
  "statement_param_bool_loop [] param_name result = result"
| "statement_param_bool_loop (param # rest) param_name result =
     (if name param \<noteq> param_name
        then statement_param_bool_loop rest param_name result
      else (case pvalue param of
              bool_value b \<Rightarrow> statement_param_bool_loop rest param_name (Some b)
            | _ \<Rightarrow> result))"

definition statement_param_bool :: "ecsact_statement \<Rightarrow> string \<Rightarrow> bool option" where
  "statement_param_bool statement param_name =
     statement_param_bool_loop (parameters statement) param_name None"

fun statement_param_string_loop ::
  "ecsact_statement_parameter list \<Rightarrow> string \<Rightarrow> string option \<Rightarrow> string option" where
  "statement_param_string_loop [] param_name result = result"
| "statement_param_string_loop (param # rest) param_name result =
     (if name param \<noteq> param_name
        then statement_param_string_loop rest param_name result
      else (case pvalue param of
              string_value s \<Rightarrow> statement_param_string_loop rest param_name (Some s)
            | _ \<Rightarrow> result))"

definition statement_param_string :: "ecsact_statement \<Rightarrow> string \<Rightarrow> string option" where
  "statement_param_string statement param_name =
     statement_param_string_loop (parameters statement) param_name None"

text \<open>
  The two-type lookup \<^verbatim>\<open>statement_param<FirstT, SecondT>\<close> (lines 168 to 190)
  tries the first type and then the second; the variant is a sum.
\<close>

definition statement_param_bool_string :: "ecsact_statement \<Rightarrow> string \<Rightarrow> (bool + string) option" where
  "statement_param_bool_string statement param_name =
     (case statement_param_bool statement param_name of
        Some first_result \<Rightarrow> Some (Inl first_result)
      | None \<Rightarrow>
          (case statement_param_string statement param_name of
             Some second_result \<Rightarrow> Some (Inr second_result)
           | None \<Rightarrow> None))"

definition statement_param_bool_int32 :: "ecsact_statement \<Rightarrow> string \<Rightarrow> (bool + 32 word) option" where
  "statement_param_bool_int32 statement param_name =
     (case statement_param_bool statement param_name of
        Some first_result \<Rightarrow> Some (Inl first_result)
      | None \<Rightarrow>
          (case statement_param_int32 statement param_name of
             Some second_result \<Rightarrow> Some (Inr second_result)
           | None \<Rightarrow> None))"

text \<open>
  The lookup as the specification words it, for comparison with the code: the value of
  the first parameter whose name matches and whose value has the requested type, every
  other parameter being passed over.
\<close>

fun spec_first_int32_param :: "ecsact_statement_parameter list \<Rightarrow> string \<Rightarrow> 32 word option" where
  "spec_first_int32_param [] n = None"
| "spec_first_int32_param (param # rest) n =
     (case pvalue param of
        integer_value i \<Rightarrow> (if name param = n then Some i else spec_first_int32_param rest n)
      | _ \<Rightarrow> spec_first_int32_param rest n)"

fun spec_first_bool_param :: "ecsact_statement_parameter list \<Rightarrow> string \<Rightarrow> bool option" where
  "spec_first_bool_param [] n = None"
| "spec_first_bool_param (param # rest) n =
     (case pvalue param of
        bool_value b \<Rightarrow> (if name param = n then Some b else spec_first_bool_param rest n)
      | _ \<Rightarrow> spec_first_bool_param rest n)"

text \<open>Recognisers of the value type, used to state what the loops compute.\<close>

fun is_integer_value :: "ecsact_statement_parameter_value \<Rightarrow> bool" where
  "is_integer_value (integer_value i) = True"
| "is_integer_value _ = False"

fun is_bool_value :: "ecsact_statement_parameter_value \<Rightarrow> bool" where
  "is_bool_value (bool_value b) = True"
| "is_bool_value _ = False"

text \<open>
  The parameters of the looked-up name that the loop reaches: those of that name, up to
  the first one whose value has another type.
\<close>

definition reached_params ::
  "(ecsact_statement_parameter_value \<Rightarrow> bool) \<Rightarrow> string \<Rightarrow>
   ecsact_statement_parameter list \<Rightarrow> ecsact_statement_parameter list" where
  "reached_params has_type n ps =
     takeWhile (\<lambda>p. has_type (pvalue p)) (filter (\<lambda>p. name p = n) ps)"

definition last_option :: "'a list \<Rightarrow> 'a option" where
  "last_option xs = (case rev xs of [] \<Rightarrow> None | x # _ \<Rightarrow> Some x)"

fun int32_of :: "ecsact_statement_parameter_value \<Rightarrow> 32 word option" where
  "int32_of (integer_value i) = Some i"
| "int32_of _ = None"

fun bool_of :: "ecsact_statement_parameter_value \<Rightarrow> bool option" where
  "bool_of (bool_value b) = Some b"
| "bool_of _ = None"

section \<open>Schema registry\<close>

text \<open>
  Modelled from the spec: the schema registry (the \<^verbatim>\<open>ecsact_meta_*\<close>,
  \<^verbatim>\<open>ecsact_create_*\<close>, \<^verbatim>\<open>ecsact_add_*\<close> and \<^verbatim>\<open>ecsact_set_*\<close>
  functions that \<^verbatim>\<open>eval.cc\<close> calls) is an external collaborator whose code is
  not part of the evaluator.  The model follows sections 3 and 6 of the specification:
  packages with a name and a list of dependencies; per package the ordered lists of
  components, transients, systems, actions and enums, each with a name; components
  with a component type; composites with an ordered list of fields (id, name, field
  type); enums with an ordered list of values; system-likes with a parent, children, a
  capability map, associations (component-like, ordered field list, capability map),
  generates-blocks, notify settings, a parallel execution mode and a lazy iteration
  rate.  Ids are opaque; a creating operation returns an id that was not in use, and
  nothing is ever deleted.  Maps are association lists with one entry per key.
\<close>

type_synonym ecsact_id = nat

datatype ecsact_component_type =
    ECSACT_COMPONENT_TYPE_NONE
  | ECSACT_COMPONENT_TYPE_STREAM
  | ECSACT_COMPONENT_TYPE_LAZY_STREAM
  | ECSACT_COMPONENT_TYPE_TRANSIENT

text \<open>
  A field type is a kind with its payload: builtin type and length, enum id and length,
  or the field index (composite id, field id).
\<close>

datatype ecsact_field_type =
    ECSACT_TYPE_KIND_BUILTIN ecsact_builtin_type "32 word"
  | ECSACT_TYPE_KIND_ENUM ecsact_id "32 word"
  | ECSACT_TYPE_KIND_FIELD_INDEX ecsact_id ecsact_id

datatype ecsact_parallel_execution =
    ECSACT_PAR_EXEC_AUTO | ECSACT_PAR_EXEC_PREFERRED | ECSACT_PAR_EXEC_DENY

datatype ecsact_system_notify_setting =
    ECSACT_SYS_NOTIFY_ALWAYS
  | ECSACT_SYS_NOTIFY_ONINIT
  | ECSACT_SYS_NOTIFY_ONUPDATE
  | ECSACT_SYS_NOTIFY_ONCHANGE
  | ECSACT_SYS_NOTIFY_ONREMOVE

datatype ecsact_system_generate = ECSACT_SYS_GEN_REQUIRED | ECSACT_SYS_GEN_OPTIONAL

record system_assoc =
  assoc_component_id :: ecsact_id
  assoc_fields :: "ecsact_id list"
  assoc_capabilities :: "(ecsact_id \<times> ecsact_system_capability) list"

record registry =
  next_id :: ecsact_id
  get_package_ids :: "ecsact_id list"
  package_name :: "ecsact_id \<Rightarrow> string"
  package_main :: "ecsact_id \<Rightarrow> bool"
  get_dependencies :: "ecsact_id \<Rightarrow> ecsact_id list"
  get_component_ids :: "ecsact_id \<Rightarrow> ecsact_id list"
  get_transient_ids :: "ecsact_id \<Rightarrow> ecsact_id list"
  get_system_ids :: "ecsact_id \<Rightarrow> ecsact_id list"
  get_action_ids :: "ecsact_id \<Rightarrow> ecsact_id list"
  get_enum_ids :: "ecsact_id \<Rightarrow> ecsact_id list"
  component_name :: "ecsact_id \<Rightarrow> string"
  transient_name :: "ecsact_id \<Rightarrow> string"
  system_name :: "ecsact_id \<Rightarrow> string"
  action_name :: "ecsact_id \<Rightarrow> string"
  enum_name :: "ecsact_id \<Rightarrow> string"
  component_type :: "ecsact_id \<Rightarrow> ecsact_component_type"
  enum_values :: "ecsact_id \<Rightarrow> (32 word \<times> string) list"
  composite_fields :: "ecsact_id \<Rightarrow> (ecsact_id \<times> string \<times> ecsact_field_type) list"
  get_parent_system_id :: "ecsact_id \<Rightarrow> ecsact_id option"
  get_child_system_ids :: "ecsact_id \<Rightarrow> ecsact_id list"
  system_capabilities :: "ecsact_id \<Rightarrow> (ecsact_id \<times> ecsact_system_capability) list"
  system_assocs :: "ecsact_id \<Rightarrow> (ecsact_id \<times> system_assoc) list"
  system_generates ::
    "ecsact_id \<Rightarrow> (ecsact_id \<times> (ecsact_id \<times> ecsact_system_generate) list) list"
  system_notify_settings :: "ecsact_id \<Rightarrow> (ecsact_id \<times> ecsact_system_notify_setting) list"
  lazy_iteration_rate :: "ecsact_id \<Rightarrow> 32 word"
  parallel_execution :: "ecsact_id \<Rightarrow> ecsact_parallel_execution"

text \<open>Modelled from the spec: a registry in which nothing has been declared.\<close>

definition empty_registry :: registry where
  "empty_registry =
     \<lparr>next_id = 0, get_package_ids = [], package_name = (\<lambda>_. []), package_main = (\<lambda>_. False),
      get_dependencies = (\<lambda>_. []), get_component_ids = (\<lambda>_. []),
      get_transient_ids = (\<lambda>_. []), get_system_ids = (\<lambda>_. []), get_action_ids = (\<lambda>_. []),
      get_enum_ids = (\<lambda>_. []), component_name = (\<lambda>_. []), transient_name = (\<lambda>_. []),
      system_name = (\<lambda>_. []), action_name = (\<lambda>_. []), enum_name = (\<lambda>_. []),
      component_type = (\<lambda>_. ECSACT_COMPONENT_TYPE_NONE), enum_values = (\<lambda>_. []),
      composite_fields = (\<lambda>_. []), get_parent_system_id = (\<lambda>_. None),
      get_child_system_ids = (\<lambda>_. []), system_capabilities = (\<lambda>_. []),
      system_assocs = (\<lambda>_. []), system_generates = (\<lambda>_. []),
      system_notify_settings = (\<lambda>_. []), lazy_iteration_rate = (\<lambda>_. 0),
      parallel_execution = (\<lambda>_. ECSACT_PAR_EXEC_AUTO)\<rparr>"

text \<open>Modelled from the spec: \<^verbatim>\<open>create_package(main, name)\<close>.\<close>

definition ecsact_create_package :: "registry \<Rightarrow> bool \<Rightarrow> string \<Rightarrow> ecsact_id \<times> registry" where
  "ecsact_create_package r is_main nm =
     (next_id r,
      r\<lparr>next_id := Suc (next_id r),
        get_package_ids := get_package_ids r @ [next_id r],
        package_name := (package_name r)(next_id r := nm),
        package_main := (package_main r)(next_id r := is_main)\<rparr>)"

text \<open>Modelled from the spec: \<^verbatim>\<open>add_dependency(pkg, dep_pkg)\<close>.\<close>

definition ecsact_add_dependency :: "registry \<Rightarrow> ecsact_id \<Rightarrow> ecsact_id \<Rightarrow> registry" where
  "ecsact_add_dependency r pkg dep =
     r\<lparr>get_dependencies := (get_dependencies r)(pkg := get_dependencies r pkg @ [dep])\<rparr>"

text \<open>Modelled from the spec: the five creating operations for declarations.\<close>

definition ecsact_create_component :: "registry \<Rightarrow> ecsact_id \<Rightarrow> string \<Rightarrow> ecsact_id \<times> registry" where
  "ecsact_create_component r pkg nm =
     (next_id r,
      r\<lparr>next_id := Suc (next_id r),
        get_component_ids := (get_component_ids r)(pkg := get_component_ids r pkg @ [next_id r]),
        component_name := (component_name r)(next_id r := nm)\<rparr>)"

definition ecsact_create_transient :: "registry \<Rightarrow> ecsact_id \<Rightarrow> string \<Rightarrow> ecsact_id \<times> registry" where
  "ecsact_create_transient r pkg nm =
     (next_id r,
      r\<lparr>next_id := Suc (next_id r),
        get_transient_ids := (get_transient_ids r)(pkg := get_transient_ids r pkg @ [next_id r]),
        transient_name := (transient_name r)(next_id r := nm)\<rparr>)"

definition ecsact_create_system :: "registry \<Rightarrow> ecsact_id \<Rightarrow> string \<Rightarrow> ecsact_id \<times> registry" where
  "ecsact_create_system r pkg nm =
     (next_id r,
      r\<lparr>next_id := Suc (next_id r),
        get_system_ids := (get_system_ids r)(pkg := get_system_ids r pkg @ [next_id r]),
        system_name := (system_name r)(next_id r := nm)\<rparr>)"

definition ecsact_create_action :: "registry \<Rightarrow> ecsact_id \<Rightarrow> string \<Rightarrow> ecsact_id \<times> registry" where
  "ecsact_create_action r pkg nm =
     (next_id r,
      r\<lparr>next_id := Suc (next_id r),
        get_action_ids := (get_action_ids r)(pkg := get_action_ids r pkg @ [next_id r]),
        action_name := (action_name r)(next_id r := nm)\<rparr>)"

definition ecsact_create_enum :: "registry \<Rightarrow> ecsact_id \<Rightarrow> string \<Rightarrow> ecsact_id \<times> registry" where
  "ecsact_create_enum r pkg nm =
     (next_id r,
      r\<lparr>next_id := Suc (next_id r),
        get_enum_ids := (get_enum_ids r)(pkg := get_enum_ids r pkg @ [next_id r]),
        enum_name := (enum_name r)(next_id r := nm)\<rparr>)"

text \<open>Modelled from the spec: \<^verbatim>\<open>set_component_type(comp_id, type)\<close>.\<close>

definition ecsact_set_component_type ::
  "registry \<Rightarrow> ecsact_id \<Rightarrow> ecsact_component_type \<Rightarrow> registry" where
  "ecsact_set_component_type r comp_id t = r\<lparr>component_type := (component_type r)(comp_id := t)\<rparr>"

text \<open>Modelled from the spec: \<^verbatim>\<open>add_enum_value(enum_id, value, name)\<close>.\<close>

definition ecsact_add_enum_value :: "registry \<Rightarrow> ecsact_id \<Rightarrow> 32 word \<Rightarrow> string \<Rightarrow> registry" where
  "ecsact_add_enum_value r e v nm =
     r\<lparr>enum_values := (enum_values r)(e := enum_values r e @ [(v, nm)])\<rparr>"

text \<open>
  Modelled from the spec: the field operations on a composite.  A new field takes the
  next index of its composite as its id.
\<close>

definition get_field_ids :: "registry \<Rightarrow> ecsact_id \<Rightarrow> ecsact_id list" where
  "get_field_ids r compo = map fst (composite_fields r compo)"

definition ecsact_meta_field_name :: "registry \<Rightarrow> ecsact_id \<Rightarrow> ecsact_id \<Rightarrow> string" where
  "ecsact_meta_field_name r compo fid =
     (case map_of (composite_fields r compo) fid of Some (nm, t) \<Rightarrow> nm | None \<Rightarrow> [])"

definition get_field_type :: "registry \<Rightarrow> ecsact_id \<Rightarrow> ecsact_id \<Rightarrow> ecsact_field_type" where
  "get_field_type r compo fid =
     (case map_of (composite_fields r compo) fid of
        Some (nm, t) \<Rightarrow> t
      | None \<Rightarrow> ECSACT_TYPE_KIND_BUILTIN ECSACT_BOOL 0)"

definition ecsact_add_field ::
  "registry \<Rightarrow> ecsact_id \<Rightarrow> ecsact_field_type \<Rightarrow> string \<Rightarrow> registry" where
  "ecsact_add_field r compo t nm =
     r\<lparr>composite_fields := (composite_fields r)
         (compo := composite_fields r compo @ [(length (composite_fields r compo), nm, t)])\<rparr>"

text \<open>Modelled from the spec: the operations on a system-like.\<close>

definition ecsact_add_child_system :: "registry \<Rightarrow> ecsact_id \<Rightarrow> ecsact_id \<Rightarrow> registry" where
  "ecsact_add_child_system r parent child =
     r\<lparr>get_parent_system_id := (get_parent_system_id r)(child := Some parent),
       get_child_system_ids :=
         (get_child_system_ids r)(parent := get_child_system_ids r parent @ [child])\<rparr>"

definition ecsact_set_system_lazy_iteration_rate ::
  "registry \<Rightarrow> ecsact_id \<Rightarrow> 32 word \<Rightarrow> registry" where
  "ecsact_set_system_lazy_iteration_rate r sys rate =
     r\<lparr>lazy_iteration_rate := (lazy_iteration_rate r)(sys := rate)\<rparr>"

definition ecsact_set_system_parallel_execution ::
  "registry \<Rightarrow> ecsact_id \<Rightarrow> ecsact_parallel_execution \<Rightarrow> registry" where
  "ecsact_set_system_parallel_execution r sys par =
     r\<lparr>parallel_execution := (parallel_execution r)(sys := par)\<rparr>"

definition ecsact_set_system_capability ::
  "registry \<Rightarrow> ecsact_id \<Rightarrow> ecsact_id \<Rightarrow> ecsact_system_capability \<Rightarrow> registry" where
  "ecsact_set_system_capability r sys comp_id cap =
     r\<lparr>system_capabilities :=
         (system_capabilities r)(sys := AList.update comp_id cap (system_capabilities r sys))\<rparr>"

definition system_notify_settings_count :: "registry \<Rightarrow> ecsact_id \<Rightarrow> nat" where
  "system_notify_settings_count r sys = length (system_notify_settings r sys)"

definition ecsact_set_system_notify_component_setting ::
  "registry \<Rightarrow> ecsact_id \<Rightarrow> ecsact_id \<Rightarrow> ecsact_system_notify_setting \<Rightarrow> registry" where
  "ecsact_set_system_notify_component_setting r sys comp_id setting =
     r\<lparr>system_notify_settings :=
         (system_notify_settings r)
           (sys := AList.update comp_id setting (system_notify_settings r sys))\<rparr>"

text \<open>
  Modelled from the spec: associations.  \<^verbatim>\<open>add_system_assoc\<close> registers a new
  association of the component-like with no field yet and returns its id;
  \<^verbatim>\<open>add_system_assoc_field\<close> appends a field to it.
\<close>

definition ecsact_add_system_assoc ::
  "registry \<Rightarrow> ecsact_id \<Rightarrow> ecsact_id \<Rightarrow> ecsact_id \<times> registry" where
  "ecsact_add_system_assoc r sys comp_id =
     (next_id r,
      r\<lparr>next_id := Suc (next_id r),
        system_assocs := (system_assocs r)
          (sys := system_assocs r sys @
             [(next_id r,
               \<lparr>assoc_component_id = comp_id, assoc_fields = [], assoc_capabilities = []\<rparr>)])\<rparr>)"

definition system_assoc_ids :: "registry \<Rightarrow> ecsact_id \<Rightarrow> ecsact_id list" where
  "system_assoc_ids r sys = map fst (system_assocs r sys)"

definition system_assoc_component_id :: "registry \<Rightarrow> ecsact_id \<Rightarrow> ecsact_id \<Rightarrow> ecsact_id" where
  "system_assoc_component_id r sys assoc =
     (case map_of (system_assocs r sys) assoc of Some a \<Rightarrow> assoc_component_id a | None \<Rightarrow> 0)"

definition system_assoc_fields :: "registry \<Rightarrow> ecsact_id \<Rightarrow> ecsact_id \<Rightarrow> ecsact_id list" where
  "system_assoc_fields r sys assoc =
     (case map_of (system_assocs r sys) assoc of Some a \<Rightarrow> assoc_fields a | None \<Rightarrow> [])"

definition system_assoc_capabilities ::
  "registry \<Rightarrow> ecsact_id \<Rightarrow> ecsact_id \<Rightarrow> (ecsact_id \<times> ecsact_system_capability) list" where
  "system_assoc_capabilities r sys assoc =
     (case map_of (system_assocs r sys) assoc of Some a \<Rightarrow> assoc_capabilities a | None \<Rightarrow> [])"

definition ecsact_add_system_assoc_field ::
  "registry \<Rightarrow> ecsact_id \<Rightarrow> ecsact_id \<Rightarrow> ecsact_id \<Rightarrow> registry" where
  "ecsact_add_system_assoc_field r sys assoc fid =
     r\<lparr>system_assocs := (system_assocs r)
         (sys := map (\<lambda>(i, a). if i = assoc then (i, a\<lparr>assoc_fields := assoc_fields a @ [fid]\<rparr>)
                                else (i, a))
                   (system_assocs r sys))\<rparr>"

definition ecsact_set_system_assoc_capability ::
  "registry \<Rightarrow> ecsact_id \<Rightarrow> ecsact_id \<Rightarrow> ecsact_id \<Rightarrow> ecsact_system_capability \<Rightarrow> registry" where
  "ecsact_set_system_assoc_capability r sys assoc comp_id cap =
     r\<lparr>system_assocs := (system_assocs r)
         (sys := map (\<lambda>(i, a). if i = assoc
                                then (i, a\<lparr>assoc_capabilities :=
                                             AList.update comp_id cap (assoc_capabilities a)\<rparr>)
                                else (i, a))
                   (system_assocs r sys))\<rparr>"

text \<open>Modelled from the spec: generates-blocks.\<close>

definition ecsact_add_system_generates :: "registry \<Rightarrow> ecsact_id \<Rightarrow> ecsact_id \<times> registry" where
  "ecsact_add_system_generates r sys =
     (next_id r,
      r\<lparr>next_id := Suc (next_id r),
        system_generates := (system_generates r)
          (sys := system_generates r sys @ [(next_id r, [])])\<rparr>)"

definition get_system_generates_ids :: "registry \<Rightarrow> ecsact_id \<Rightarrow> ecsact_id list" where
  "get_system_generates_ids r sys = map fst (system_generates r sys)"

definition get_system_generates_components ::
  "registry \<Rightarrow> ecsact_id \<Rightarrow> ecsact_id \<Rightarrow> (ecsact_id \<times> ecsact_system_generate) list" where
  "get_system_generates_components r sys gen =
     (case map_of (system_generates r sys) gen of Some cs \<Rightarrow> cs | None \<Rightarrow> [])"

definition ecsact_system_generates_set_component ::
  "registry \<Rightarrow> ecsact_id \<Rightarrow> ecsact_id \<Rightarrow> ecsact_id \<Rightarrow> ecsact_system_generate \<Rightarrow> registry" where
  "ecsact_system_generates_set_component r sys gen comp_id flag =
     r\<lparr>system_generates := (system_generates r)
         (sys := map (\<lambda>(i, cs). if i = gen then (i, AList.update comp_id flag cs) else (i, cs))
                   (system_generates r sys))\<rparr>"

section \<open>Errors and outcomes\<close>

datatype ecsact_eval_error_code =
    ECSACT_EVAL_OK
  | ECSACT_EVAL_ERR_INVALID_CONTEXT
  | ECSACT_EVAL_ERR_UNEXPECTED_STATEMENT
  | ECSACT_EVAL_ERR_UNKNOWN_IMPORT
  | ECSACT_EVAL_ERR_DECLARATION_NAME_TAKEN
  | ECSACT_EVAL_ERR_FIELD_NAME_ALREADY_EXISTS
  | ECSACT_EVAL_ERR_UNKNOWN_FIELD_TYPE
  | ECSACT_EVAL_ERR_AMBIGUOUS_FIELD_TYPE
  | ECSACT_EVAL_ERR_UNKNOWN_FIELD_NAME
  | ECSACT_EVAL_ERR_INVALID_ASSOC_FIELD_TYPE
  | ECSACT_EVAL_ERR_UNKNOWN_COMPONENT_TYPE
  | ECSACT_EVAL_ERR_UNKNOWN_COMPONENT_LIKE_TYPE
  | ECSACT_EVAL_ERR_MULTIPLE_CAPABILITIES_SAME_COMPONENT_LIKE
  | ECSACT_EVAL_ERR_NESTED_ASSOC
  | ECSACT_EVAL_ERR_SAME_FIELDS_SYSTEM_ASSOCIATION
  | ECSACT_EVAL_ERR_NOTIFY_BEFORE_SYSTEM_COMPONENT
  | ECSACT_EVAL_ERR_NOTIFY_BLOCK_AND_COMPONENTS
  | ECSACT_EVAL_ERR_MULTIPLE_NOTIFY_STATEMENTS
  | ECSACT_EVAL_ERR_DUPLICATE_NOTIFY_COMPONENT
  | ECSACT_EVAL_ERR_INVALID_NOTIFY_SETTING
  | ECSACT_EVAL_ERR_ONLY_ONE_GENERATES_BLOCK_ALLOWED
  | ECSACT_EVAL_ERR_GENERATES_DUPLICATE_COMPONENT_CONSTRAINTS
  | ECSACT_EVAL_ERR_NO_CAPABILITIES
  | ECSACT_EVAL_ERR_PARAMETERS_NOT_ALLOWED
  | ECSACT_EVAL_ERR_UNKNOWN_PARAMETER_NAME
  | ECSACT_EVAL_ERR_INVALID_PARAMETER_VALUE
  | ECSACT_EVAL_ERR_INTERNAL

record ecsact_eval_error =
  code :: ecsact_eval_error_code
  relevant_content :: string
  context_type :: ecsact_statement_type

text \<open>
  \<^verbatim>\<open>ecsact_eval_error{}\<close> is the OK value; an initialiser that names the code
  and the relevant content leaves the context type at its zero value,
  \<^verbatim>\<open>ECSACT_STATEMENT_NONE\<close>.
\<close>

definition eval_ok :: ecsact_eval_error where
  "eval_ok = \<lparr>code = ECSACT_EVAL_OK, relevant_content = [],
              context_type = ECSACT_STATEMENT_NONE\<rparr>"

definition eval_error :: "ecsact_eval_error_code \<Rightarrow> string \<Rightarrow> ecsact_eval_error" where
  "eval_error c content = \<lparr>code = c, relevant_content = content,
                             context_type = ECSACT_STATEMENT_NONE\<rparr>"

text \<open>
  A call of the evaluator either returns an error value, leaving the registry in some
  state, or does not return: an \<^verbatim>\<open>assert\<close> fails, \<^verbatim>\<open>std::vector::at\<close>
  throws \<^verbatim>\<open>std::out_of_range\<close>, or the code reads through an empty
  \<^verbatim>\<open>std::optional\<close>, a null pointer or outside an array.
\<close>

datatype fault = assertion_failed | out_of_range_thrown | undefined_behaviour

datatype outcome = Return ecsact_eval_error registry | Fault fault

section \<open>Context matcher and parameter validator\<close>

text \<open>\<^verbatim>\<open>expect_context\<close>, lines 39 to 77.  The context is the last statement of the stack.\<close>

definition expect_context ::
  "ecsact_statement list \<Rightarrow> ecsact_statement_type list \<Rightarrow>
   ecsact_statement option \<times> ecsact_eval_error" where
  "expect_context context_stack context_types =
     (if context_stack = [] \<and> ECSACT_STATEMENT_NONE \<in> set context_types
        then (None, eval_ok)
      else if context_stack = []
        then (None, \<lparr>code = ECSACT_EVAL_ERR_INVALID_CONTEXT, relevant_content = [],
                     context_type = ECSACT_STATEMENT_NONE\<rparr>)
      else if stype (last context_stack) \<in> set context_types
        then (Some (last context_stack), eval_ok)
      else (Some (last context_stack),
            \<lparr>code = ECSACT_EVAL_ERR_INVALID_CONTEXT, relevant_content = [],
             context_type = stype (last context_stack)\<rparr>))"

definition context_type_of :: "ecsact_statement option \<Rightarrow> ecsact_statement_type" where
  "context_type_of context =
     (case context of Some c \<Rightarrow> stype c | None \<Rightarrow> ECSACT_STATEMENT_NONE)"

text \<open>\<^verbatim>\<open>allow_statement_params\<close>, lines 224 to 259, and its loop over the parameters.\<close>

fun allow_statement_params_loop ::
  "ecsact_statement_parameter list \<Rightarrow> ecsact_statement option \<Rightarrow> string list \<Rightarrow>
   ecsact_eval_error option" where
  "allow_statement_params_loop [] context allowed_param_names = None"
| "allow_statement_params_loop (param # rest) context allowed_param_names =
     (if name param \<in> set allowed_param_names
        then allow_statement_params_loop rest context allowed_param_names
      else Some \<lparr>code = ECSACT_EVAL_ERR_UNKNOWN_PARAMETER_NAME,
                 relevant_content = name param,
                 context_type = context_type_of context\<rparr>)"

definition allow_statement_params ::
  "ecsact_statement \<Rightarrow> ecsact_statement option \<Rightarrow> string list \<Rightarrow> ecsact_eval_error option" where
  "allow_statement_params statement context allowed_param_names =
     (if allowed_param_names = [] \<and> parameters statement \<noteq> []
        then Some \<lparr>code = ECSACT_EVAL_ERR_PARAMETERS_NOT_ALLOWED, relevant_content = [],
                   context_type = context_type_of context\<rparr>
      else allow_statement_params_loop (parameters statement) context allowed_param_names)"

definition disallow_statement_params ::
  "ecsact_statement \<Rightarrow> ecsact_statement option \<Rightarrow> ecsact_eval_error option" where
  "disallow_statement_params statement context = allow_statement_params statement context []"

text \<open>\<^verbatim>\<open>parallel_param\<close>, lines 192 to 222: a parallel execution mode or an error code.\<close>

definition parallel_param ::
  "ecsact_statement \<Rightarrow> ecsact_eval_error_code + ecsact_parallel_execution" where
  "parallel_param statement =
     (case statement_param_bool_string statement ''parallel'' of
        None \<Rightarrow> Inr ECSACT_PAR_EXEC_AUTO
      | Some (Inl param) \<Rightarrow>
          Inr (if param then ECSACT_PAR_EXEC_PREFERRED else ECSACT_PAR_EXEC_DENY)
      | Some (Inr param) \<Rightarrow>
          (if param = ''auto'' then Inr ECSACT_PAR_EXEC_AUTO
           else if param = ''preferred'' then Inr ECSACT_PAR_EXEC_PREFERRED
           else if param = ''deny'' then Inr ECSACT_PAR_EXEC_DENY
           else Inl ECSACT_EVAL_ERR_INVALID_PARAMETER_VALUE))"

section \<open>Name resolver\<close>

text \<open>
  \<^verbatim>\<open>find_field_by_name\<close>, lines 272 to 292: the first field id of the composite
  whose name is the target.
\<close>

definition find_field_by_name :: "registry \<Rightarrow> ecsact_id \<Rightarrow> string \<Rightarrow> ecsact_id option" where
  "find_field_by_name r compo_id target_field_name =
     find (\<lambda>field_id. ecsact_meta_field_name r compo_id field_id = target_field_name)
       (get_field_ids r compo_id)"

text \<open>
  \<^verbatim>\<open>find_by_name\<close> for components, transients and enums (lines 315 to 345, 347 to
  377 and 407 to 437) is three copies of one function that differ in the registry
  accessors.  The first loop runs over the declarations of the package and returns at a
  bare-name match or a match of \<^verbatim>\<open>pkg_name + "." + name\<close>.
\<close>

fun find_in_package ::
  "(ecsact_id \<Rightarrow> string) \<Rightarrow> string \<Rightarrow> string \<Rightarrow> ecsact_id list \<Rightarrow> ecsact_id option" where
  "find_in_package decl_name pkg_name lookup_name [] = None"
| "find_in_package decl_name pkg_name lookup_name (i # ids) =
     (if lookup_name = decl_name i then Some i
      else if lookup_name = pkg_name @ ''.'' @ decl_name i then Some i
      else find_in_package decl_name pkg_name lookup_name ids)"

text \<open>
  The second loop runs over the dependencies; its inner loop over the declarations of
  one dependency returns at a match of \<^verbatim>\<open>dep_pkg_name + "." + name\<close> only.
\<close>

fun find_in_dependency ::
  "(ecsact_id \<Rightarrow> string) \<Rightarrow> string \<Rightarrow> string \<Rightarrow> ecsact_id list \<Rightarrow> ecsact_id option" where
  "find_in_dependency decl_name dep_pkg_name lookup_name [] = None"
| "find_in_dependency decl_name dep_pkg_name lookup_name (i # ids) =
     (if lookup_name = dep_pkg_name @ ''.'' @ decl_name i then Some i
      else find_in_dependency decl_name dep_pkg_name lookup_name ids)"

fun find_in_dependencies ::
  "(ecsact_id \<Rightarrow> string) \<Rightarrow> (ecsact_id \<Rightarrow> ecsact_id list) \<Rightarrow> (ecsact_id \<Rightarrow> string) \<Rightarrow>
   string \<Rightarrow> ecsact_id list \<Rightarrow> ecsact_id option" where
  "find_in_dependencies pkg_names decl_ids decl_name lookup_name [] = None"
| "find_in_dependencies pkg_names decl_ids decl_name lookup_name (dep_pkg_id # deps) =
     (case find_in_dependency decl_name (pkg_names dep_pkg_id) lookup_name
             (decl_ids dep_pkg_id) of
        Some i \<Rightarrow> Some i
      | None \<Rightarrow> find_in_dependencies pkg_names decl_ids decl_name lookup_name deps)"

definition find_by_name_component :: "registry \<Rightarrow> ecsact_id \<Rightarrow> string \<Rightarrow> ecsact_id option" where
  "find_by_name_component r package_id lookup_name =
     (case find_in_package (component_name r) (package_name r package_id) lookup_name
             (get_component_ids r package_id) of
        Some i \<Rightarrow> Some i
      | None \<Rightarrow>
          find_in_dependencies (package_name r) (get_component_ids r) (component_name r)
            lookup_name (get_dependencies r package_id))"

definition find_by_name_transient :: "registry \<Rightarrow> ecsact_id \<Rightarrow> string \<Rightarrow> ecsact_id option" where
  "find_by_name_transient r package_id lookup_name =
     (case find_in_package (transient_name r) (package_name r package_id) lookup_name
             (get_transient_ids r package_id) of
        Some i \<Rightarrow> Some i
      | None \<Rightarrow>
          find_in_dependencies (package_name r) (get_transient_ids r) (transient_name r)
            lookup_name (get_dependencies r package_id))"

definition find_by_name_enum :: "registry \<Rightarrow> ecsact_id \<Rightarrow> string \<Rightarrow> ecsact_id option" where
  "find_by_name_enum r package_id lookup_name =
     (case find_in_package (enum_name r) (package_name r package_id) lookup_name
             (get_enum_ids r package_id) of
        Some i \<Rightarrow> Some i
      | None \<Rightarrow>
          find_in_dependencies (package_name r) (get_enum_ids r) (enum_name r)
            lookup_name (get_dependencies r package_id))"

text \<open>
  \<^verbatim>\<open>find_by_name\<close> for systems and actions (lines 379 to 391 and 393 to 405) is a
  single loop over the declarations of the package that compares the bare name.
\<close>

fun find_bare_name :: "(ecsact_id \<Rightarrow> string) \<Rightarrow> string \<Rightarrow> ecsact_id list \<Rightarrow> ecsact_id option" where
  "find_bare_name decl_name nm [] = None"
| "find_bare_name decl_name nm (i # ids) =
     (if nm = decl_name i then Some i else find_bare_name decl_name nm ids)"

definition find_by_name_system :: "registry \<Rightarrow> ecsact_id \<Rightarrow> string \<Rightarrow> ecsact_id option" where
  "find_by_name_system r package_id nm =
     find_bare_name (system_name r) nm (get_system_ids r package_id)"

definition find_by_name_action :: "registry \<Rightarrow> ecsact_id \<Rightarrow> string \<Rightarrow> ecsact_id option" where
  "find_by_name_action r package_id nm =
     find_bare_name (action_name r) nm (get_action_ids r package_id)"

text \<open>The supersets, lines 439 to 497; an id cast keeps the id.\<close>

definition find_by_name_composite :: "registry \<Rightarrow> ecsact_id \<Rightarrow> string \<Rightarrow> ecsact_id option" where
  "find_by_name_composite r pkg_id nm =
     (case find_by_name_component r pkg_id nm of
        Some i \<Rightarrow> Some i
      | None \<Rightarrow>
          (case find_by_name_transient r pkg_id nm of
             Some i \<Rightarrow> Some i
           | None \<Rightarrow> find_by_name_action r pkg_id nm))"

definition find_by_name_decl :: "registry \<Rightarrow> ecsact_id \<Rightarrow> string \<Rightarrow> ecsact_id option" where
  "find_by_name_decl r pkg_id nm =
     (case find_by_name_component r pkg_id nm of
        Some i \<Rightarrow> Some i
      | None \<Rightarrow>
          (case find_by_name_transient r pkg_id nm of
             Some i \<Rightarrow> Some i
           | None \<Rightarrow>
               (case find_by_name_system r pkg_id nm of
                  Some i \<Rightarrow> Some i
                | None \<Rightarrow> find_by_name_action r pkg_id nm)))"

definition find_by_name_component_like :: "registry \<Rightarrow> ecsact_id \<Rightarrow> string \<Rightarrow> ecsact_id option" where
  "find_by_name_component_like r pkg_id nm =
     (case find_by_name_component r pkg_id nm of
        Some i \<Rightarrow> Some i
      | None \<Rightarrow> find_by_name_transient r pkg_id nm)"

text \<open>\<^verbatim>\<open>find_user_field_type_by_name\<close>, lines 499 to 515.\<close>

definition find_user_field_type_by_name ::
  "registry \<Rightarrow> ecsact_id \<Rightarrow> string \<Rightarrow> 32 word \<Rightarrow> ecsact_field_type option" where
  "find_user_field_type_by_name r package_id user_type_name len =
     (case find_by_name_enum r package_id user_type_name of
        Some enum_id \<Rightarrow> Some (ECSACT_TYPE_KIND_ENUM enum_id len)
      | None \<Rightarrow> None)"

text \<open>
  \<^verbatim>\<open>std::string_view::find_last_of\<close> for one character: the greatest index that
  holds it, nothing (\<^verbatim>\<open>npos\<close>) when the character does not occur.
\<close>

definition find_last_of :: "string \<Rightarrow> char \<Rightarrow> nat option" where
  "find_last_of str c = find (\<lambda>i. str ! i = c) (rev [0 ..< length str])"

text \<open>\<^verbatim>\<open>find_field_by_full_name\<close>, lines 517 to 551.\<close>

definition find_field_by_full_name ::
  "registry \<Rightarrow> ecsact_id \<Rightarrow> string \<Rightarrow> ecsact_field_type option" where
  "find_field_by_full_name r package_id field_full_name =
     (case find_last_of field_full_name CHR ''.'' of
        None \<Rightarrow> None
      | Some last_dot_idx \<Rightarrow>
          (case find_by_name_composite r package_id (take last_dot_idx field_full_name) of
             None \<Rightarrow> None
           | Some composite_id \<Rightarrow>
               (case find_field_by_name r composite_id
                       (drop (last_dot_idx + 1) field_full_name) of
                  None \<Rightarrow> None
                | Some field_id \<Rightarrow> Some (ECSACT_TYPE_KIND_FIELD_INDEX composite_id field_id))))"

text \<open>\<^verbatim>\<open>find_by_statement\<close> for the three supersets, lines 553 to 668.\<close>

definition find_by_statement_composite ::
  "registry \<Rightarrow> ecsact_id \<Rightarrow> ecsact_statement \<Rightarrow> ecsact_id option" where
  "find_by_statement_composite r package_id statement =
     (case data statement of
        component_statement nm \<Rightarrow> find_by_name_component r package_id nm
      | transient_statement nm \<Rightarrow> find_by_name_transient r package_id nm
      | action_statement nm \<Rightarrow> find_by_name_action r package_id nm
      | _ \<Rightarrow> None)"

definition find_by_statement_component_like ::
  "registry \<Rightarrow> ecsact_id \<Rightarrow> ecsact_statement \<Rightarrow> ecsact_id option" where
  "find_by_statement_component_like r package_id statement =
     (case data statement of
        component_statement nm \<Rightarrow> find_by_name_component r package_id nm
      | transient_statement nm \<Rightarrow> find_by_name_transient r package_id nm
      | system_component_statement cap nm with_list \<Rightarrow>
          find_by_name_component_like r package_id nm
      | _ \<Rightarrow> None)"

definition find_by_statement_system_like ::
  "registry \<Rightarrow> ecsact_id \<Rightarrow> ecsact_statement \<Rightarrow> ecsact_id option" where
  "find_by_statement_system_like r package_id statement =
     (case data statement of
        system_statement nm \<Rightarrow> find_by_name_system r package_id nm
      | action_statement nm \<Rightarrow> find_by_name_action r package_id nm
      | _ \<Rightarrow> None)"

section \<open>Statement dispatchers: declarations and fields\<close>

text \<open>
  Every dispatcher takes the registry, the package id, the context stack and the
  statement, and yields an outcome.  Reading the payload of a statement through the
  union member of another statement type, which the top-level switch rules out, is
  the undefined-behaviour branch of the payload case.
\<close>

definition eval_none_statement ::
  "registry \<Rightarrow> ecsact_id \<Rightarrow> ecsact_statement list \<Rightarrow> ecsact_statement \<Rightarrow> outcome" where
  "eval_none_statement r package_id context_stack statement = Return eval_ok r"

definition eval_unknown_statement ::
  "registry \<Rightarrow> ecsact_id \<Rightarrow> ecsact_statement list \<Rightarrow> ecsact_statement \<Rightarrow> outcome" where
  "eval_unknown_statement r package_id context_stack statement = Return eval_ok r"

text \<open>The loop of \<^verbatim>\<open>eval_import_statement\<close> over the known packages, lines 701 to 715.\<close>

fun eval_import_loop :: "registry \<Rightarrow> ecsact_id \<Rightarrow> string \<Rightarrow> ecsact_id list \<Rightarrow> outcome" where
  "eval_import_loop r package_id import_name [] =
     Return (eval_error ECSACT_EVAL_ERR_UNKNOWN_IMPORT import_name) r"
| "eval_import_loop r package_id import_name (dep_pkg_id # rest) =
     (if dep_pkg_id = package_id then eval_import_loop r package_id import_name rest
      else if package_name r dep_pkg_id = import_name
        then Return eval_ok (ecsact_add_dependency r package_id dep_pkg_id)
      else eval_import_loop r package_id import_name rest)"

text \<open>\<^verbatim>\<open>eval_import_statement\<close>, lines 680 to 715.\<close>

definition eval_import_statement ::
  "registry \<Rightarrow> ecsact_id \<Rightarrow> ecsact_statement list \<Rightarrow> ecsact_statement \<Rightarrow> outcome" where
  "eval_import_statement r package_id context_stack statement =
     (case data statement of
        import_statement import_package_name \<Rightarrow>
          (case expect_context context_stack [ECSACT_STATEMENT_NONE] of
             (context, err) \<Rightarrow>
               if code err \<noteq> ECSACT_EVAL_OK
                 then Return (err\<lparr>relevant_content := import_package_name\<rparr>) r
               else (case disallow_statement_params statement context of
                       Some perr \<Rightarrow> Return perr r
                     | None \<Rightarrow>
                         eval_import_loop r package_id import_package_name
                           (get_package_ids r)))
      | _ \<Rightarrow> Fault undefined_behaviour)"

text \<open>
  The error of \<^verbatim>\<open>eval_component_statement\<close> whose relevant content is
  \<^verbatim>\<open>statement.parameters[0].name\<close> (lines 743 to 746 and 759 to 762).
\<close>

definition invalid_parameter_value_at_first :: "ecsact_statement \<Rightarrow> registry \<Rightarrow> outcome" where
  "invalid_parameter_value_at_first statement r =
     (case parameters statement of
        [] \<Rightarrow> Fault undefined_behaviour
      | param # rest \<Rightarrow>
          Return (eval_error ECSACT_EVAL_ERR_INVALID_PARAMETER_VALUE (name param)) r)"

text \<open>
  The component type that the \<^verbatim>\<open>stream\<close> parameter selects (lines 737 to 753),
  or the early return, and then the effect of the \<^verbatim>\<open>transient\<close> parameter on it
  (lines 755 to 767).
\<close>

definition component_type_of_stream ::
  "ecsact_statement \<Rightarrow> registry \<Rightarrow> outcome + ecsact_component_type" where
  "component_type_of_stream statement r =
     (case statement_param_bool_string statement ''stream'' of
        None \<Rightarrow> Inr ECSACT_COMPONENT_TYPE_NONE
      | Some (Inr stream_type) \<Rightarrow>
          (if stream_type \<noteq> ''lazy''
             then Inl (invalid_parameter_value_at_first statement r)
           else Inr ECSACT_COMPONENT_TYPE_LAZY_STREAM)
      | Some (Inl stream_bool) \<Rightarrow>
          (if stream_bool then Inr ECSACT_COMPONENT_TYPE_STREAM
           else Inr ECSACT_COMPONENT_TYPE_NONE))"

definition component_type_of_transient ::
  "ecsact_statement \<Rightarrow> registry \<Rightarrow> ecsact_component_type \<Rightarrow> outcome + ecsact_component_type" where
  "component_type_of_transient statement r comp_type =
     (case statement_param_bool statement ''transient'' of
        None \<Rightarrow> Inr comp_type
      | Some transient_param \<Rightarrow>
          (if transient_param
             then (if comp_type \<noteq> ECSACT_COMPONENT_TYPE_NONE
                     then Inl (invalid_parameter_value_at_first statement r)
                   else Inr ECSACT_COMPONENT_TYPE_TRANSIENT)
           else Inr comp_type))"

text \<open>\<^verbatim>\<open>eval_component_statement\<close>, lines 717 to 788.\<close>

definition eval_component_statement ::
  "registry \<Rightarrow> ecsact_id \<Rightarrow> ecsact_statement list \<Rightarrow> ecsact_statement \<Rightarrow> outcome" where
  "eval_component_statement r package_id context_stack statement =
     (case data statement of
        component_statement comp_name \<Rightarrow>
          (case expect_context context_stack [ECSACT_STATEMENT_NONE] of
             (context, err) \<Rightarrow>
               if code err \<noteq> ECSACT_EVAL_OK
                 then Return (err\<lparr>relevant_content := comp_name\<rparr>) r
               else (case allow_statement_params statement context
                            [''stream'', ''transient''] of
                 Some perr \<Rightarrow> Return perr r
               | None \<Rightarrow>
                   (case component_type_of_stream statement r of
                      Inl early \<Rightarrow> early
                    | Inr stream_component_type \<Rightarrow>
                        (case component_type_of_transient statement r
                                stream_component_type of
                           Inl early \<Rightarrow> early
                         | Inr comp_type \<Rightarrow>
                             (case find_by_name_decl r package_id comp_name of
                                Some existing_decl \<Rightarrow>
                                  Return (eval_error ECSACT_EVAL_ERR_DECLARATION_NAME_TAKEN
                                            comp_name) r
                              | None \<Rightarrow>
                                  (case ecsact_create_component r package_id comp_name of
                                     (comp_id, r1) \<Rightarrow>
                                       Return eval_ok
                                         (ecsact_set_component_type r1 comp_id
                                            comp_type)))))))
      | _ \<Rightarrow> Fault undefined_behaviour)"

text \<open>\<^verbatim>\<open>eval_transient_statement\<close>, lines 790 to 822.\<close>

definition eval_transient_statement ::
  "registry \<Rightarrow> ecsact_id \<Rightarrow> ecsact_statement list \<Rightarrow> ecsact_statement \<Rightarrow> outcome" where
  "eval_transient_statement r package_id context_stack statement =
     (case data statement of
        transient_statement trans_name \<Rightarrow>
          (case expect_context context_stack [ECSACT_STATEMENT_NONE] of
             (context, err) \<Rightarrow>
               if code err \<noteq> ECSACT_EVAL_OK
                 then Return (err\<lparr>relevant_content := trans_name\<rparr>) r
               else (case disallow_statement_params statement context of
                 Some perr \<Rightarrow> Return perr r
               | None \<Rightarrow>
                   (case find_by_name_decl r package_id trans_name of
                      Some existing_decl \<Rightarrow>
                        Return (eval_error ECSACT_EVAL_ERR_DECLARATION_NAME_TAKEN trans_name) r
                    | None \<Rightarrow>
                        Return eval_ok (snd (ecsact_create_transient r package_id trans_name)))))
      | _ \<Rightarrow> Fault undefined_behaviour)"

text \<open>The lambda \<^verbatim>\<open>lazy_value\<close> of \<^verbatim>\<open>eval_system_statement\<close>, lines 853 to 866.\<close>

definition lazy_value :: "ecsact_statement \<Rightarrow> 32 word" where
  "lazy_value statement =
     (case statement_param_bool_int32 statement ''lazy'' of
        None \<Rightarrow> 0
      | Some (Inl bool_lazy) \<Rightarrow> (if bool_lazy then 1 else 0)
      | Some (Inr int_lazy) \<Rightarrow> int_lazy)"

text \<open>
  The tail of \<^verbatim>\<open>eval_system_statement\<close> after the name check, lines 889 to 916:
  the system is created, attached to its parent and made lazy before the
  \<^verbatim>\<open>parallel\<close> parameter is checked.
\<close>

definition eval_system_create ::
  "registry \<Rightarrow> ecsact_id \<Rightarrow> ecsact_statement \<Rightarrow> string \<Rightarrow> ecsact_id option \<Rightarrow> outcome" where
  "eval_system_create r package_id statement sys_name parent_sys_like_id =
     (case ecsact_create_system r package_id sys_name of
        (sys_id, r1) \<Rightarrow>
          (let r2 = (case parent_sys_like_id of
                       Some parent \<Rightarrow> ecsact_add_child_system r1 parent sys_id
                     | None \<Rightarrow> r1);
               r3 = (if 0 < sint (lazy_value statement)
                       then ecsact_set_system_lazy_iteration_rate r2 sys_id
                              (lazy_value statement)
                     else r2)
           in (case parallel_param statement of
                 Inl err_code \<Rightarrow> Return (eval_error err_code sys_name) r3
               | Inr parallel \<Rightarrow>
                   Return eval_ok (ecsact_set_system_parallel_execution r3 sys_id parallel))))"

text \<open>\<^verbatim>\<open>eval_system_statement\<close>, lines 824 to 917.\<close>

definition eval_system_statement ::
  "registry \<Rightarrow> ecsact_id \<Rightarrow> ecsact_statement list \<Rightarrow> ecsact_statement \<Rightarrow> outcome" where
  "eval_system_statement r package_id context_stack statement =
     (case data statement of
        system_statement sys_name \<Rightarrow>
          (case expect_context context_stack
                  [ECSACT_STATEMENT_NONE, ECSACT_STATEMENT_SYSTEM, ECSACT_STATEMENT_ACTION] of
             (context, err) \<Rightarrow>
               if code err \<noteq> ECSACT_EVAL_OK
                 then Return (err\<lparr>relevant_content := sys_name\<rparr>) r
               else (case allow_statement_params statement context
                            [''lazy'', ''parallel''] of
                 Some perr \<Rightarrow> Return perr r
               | None \<Rightarrow>
                   (let parent_sys_like_id =
                          (case context of
                             Some c \<Rightarrow> find_by_statement_system_like r package_id c
                           | None \<Rightarrow> None)
                    in if context \<noteq> None \<and> parent_sys_like_id = None
                         then Return (eval_error ECSACT_EVAL_ERR_INVALID_CONTEXT []) r
                       else (case find_by_name_decl r package_id sys_name of
                               Some existing_decl \<Rightarrow>
                                 Return (eval_error ECSACT_EVAL_ERR_DECLARATION_NAME_TAKEN
                                           sys_name) r
                             | None \<Rightarrow>
                                 eval_system_create r package_id statement sys_name
                                   parent_sys_like_id))))
      | _ \<Rightarrow> Fault undefined_behaviour)"

text \<open>\<^verbatim>\<open>eval_action_statement\<close>, lines 919 to 966.\<close>

definition eval_action_statement ::
  "registry \<Rightarrow> ecsact_id \<Rightarrow> ecsact_statement list \<Rightarrow> ecsact_statement \<Rightarrow> outcome" where
  "eval_action_statement r package_id context_stack statement =
     (case data statement of
        action_statement act_name \<Rightarrow>
          (case expect_context context_stack [ECSACT_STATEMENT_NONE] of
             (context, err) \<Rightarrow>
               if code err \<noteq> ECSACT_EVAL_OK
                 then Return (err\<lparr>relevant_content := act_name\<rparr>) r
               else (case allow_statement_params statement context [''parallel''] of
                 Some perr \<Rightarrow> Return perr r
               | None \<Rightarrow>
                   (case find_by_name_decl r package_id act_name of
                      Some existing_decl \<Rightarrow>
                        Return (eval_error ECSACT_EVAL_ERR_DECLARATION_NAME_TAKEN act_name) r
                    | None \<Rightarrow>
                        (case ecsact_create_action r package_id act_name of
                           (act_id, r1) \<Rightarrow>
                             (case parallel_param statement of
                                Inl err_code \<Rightarrow> Return (eval_error err_code act_name) r1
                              | Inr parallel \<Rightarrow>
                                  Return eval_ok
                                    (ecsact_set_system_parallel_execution r1 act_id
                                       parallel))))))
      | _ \<Rightarrow> Fault undefined_behaviour)"

text \<open>\<^verbatim>\<open>eval_enum_statement\<close>, lines 968 to 997.\<close>

definition eval_enum_statement ::
  "registry \<Rightarrow> ecsact_id \<Rightarrow> ecsact_statement list \<Rightarrow> ecsact_statement \<Rightarrow> outcome" where
  "eval_enum_statement r package_id context_stack statement =
     (case data statement of
        enum_statement en_name \<Rightarrow>
          (case expect_context context_stack [ECSACT_STATEMENT_NONE] of
             (context, err) \<Rightarrow>
               if code err \<noteq> ECSACT_EVAL_OK
                 then Return (err\<lparr>relevant_content := en_name\<rparr>) r
               else (case disallow_statement_params statement context of
                 Some perr \<Rightarrow> Return perr r
               | None \<Rightarrow>
                   (case find_by_name_decl r package_id en_name of
                      Some existing_decl \<Rightarrow>
                        Return (eval_error ECSACT_EVAL_ERR_DECLARATION_NAME_TAKEN en_name) r
                    | None \<Rightarrow>
                        Return eval_ok (snd (ecsact_create_enum r package_id en_name)))))
      | _ \<Rightarrow> Fault undefined_behaviour)"

text \<open>
  \<^verbatim>\<open>eval_enum_value_statement\<close>, lines 999 to 1030.  The context is read through
  the pointer that \<^verbatim>\<open>expect_context\<close> returned, as an enum statement.
\<close>

definition eval_enum_value_statement ::
  "registry \<Rightarrow> ecsact_id \<Rightarrow> ecsact_statement list \<Rightarrow> ecsact_statement \<Rightarrow> outcome" where
  "eval_enum_value_statement r package_id context_stack statement =
     (case data statement of
        enum_value_statement value_name val \<Rightarrow>
          (case expect_context context_stack [ECSACT_STATEMENT_ENUM] of
             (context, err) \<Rightarrow>
               if code err \<noteq> ECSACT_EVAL_OK
                 then Return (err\<lparr>relevant_content := value_name\<rparr>) r
               else (case disallow_statement_params statement context of
                 Some perr \<Rightarrow> Return perr r
               | None \<Rightarrow>
                   (case context of
                      None \<Rightarrow> Fault undefined_behaviour
                    | Some c \<Rightarrow>
                        (case data c of
                           enum_statement en_name \<Rightarrow>
                             (case find_by_name_enum r package_id en_name of
                                None \<Rightarrow>
                                  Return (eval_error ECSACT_EVAL_ERR_INVALID_CONTEXT en_name) r
                              | Some enum_id \<Rightarrow>
                                  Return eval_ok
                                    (ecsact_add_enum_value r enum_id val value_name))
                         | _ \<Rightarrow> Fault undefined_behaviour))))
      | _ \<Rightarrow> Fault undefined_behaviour)"

text \<open>
  The payload that \<^verbatim>\<open>eval_builtin_type_field_statement\<close> reads as
  \<^verbatim>\<open>statement.data.field_statement\<close>: that of a builtin-type field or of an
  entity field.
\<close>

definition field_statement_of ::
  "ecsact_statement_data \<Rightarrow> (ecsact_builtin_type \<times> string \<times> 32 word) option" where
  "field_statement_of d =
     (case d of
        field_statement field_type field_name len \<Rightarrow> Some (field_type, field_name, len)
      | entity_field_statement field_type field_name len \<Rightarrow> Some (field_type, field_name, len)
      | _ \<Rightarrow> None)"

text \<open>The duplicate-name loop over the fields of a composite, lines 1065 to 1073.\<close>

definition field_name_exists :: "registry \<Rightarrow> ecsact_id \<Rightarrow> string \<Rightarrow> bool" where
  "field_name_exists r compo_id field_name =
     (field_name \<in> set (map (ecsact_meta_field_name r compo_id) (get_field_ids r compo_id)))"

text \<open>\<^verbatim>\<open>eval_builtin_type_field_statement\<close>, lines 1032 to 1087.\<close>

definition eval_builtin_type_field_statement ::
  "registry \<Rightarrow> ecsact_id \<Rightarrow> ecsact_statement list \<Rightarrow> ecsact_statement \<Rightarrow> outcome" where
  "eval_builtin_type_field_statement r package_id context_stack statement =
     (case field_statement_of (data statement) of
        Some (field_type, field_name, len) \<Rightarrow>
          (case expect_context context_stack
                  [ECSACT_STATEMENT_COMPONENT, ECSACT_STATEMENT_TRANSIENT,
                   ECSACT_STATEMENT_ACTION] of
             (context, err) \<Rightarrow>
               if code err \<noteq> ECSACT_EVAL_OK
                 then Return (err\<lparr>relevant_content := field_name\<rparr>) r
               else (case disallow_statement_params statement context of
                 Some perr \<Rightarrow> Return perr r
               | None \<Rightarrow>
                   (case context of
                      None \<Rightarrow> Fault undefined_behaviour
                    | Some c \<Rightarrow>
                        (case find_by_statement_composite r package_id c of
                           None \<Rightarrow> Return (eval_error ECSACT_EVAL_ERR_INVALID_CONTEXT []) r
                         | Some compo_id \<Rightarrow>
                             (if field_name_exists r compo_id field_name
                                then Return (eval_error
                                       ECSACT_EVAL_ERR_FIELD_NAME_ALREADY_EXISTS field_name) r
                              else Return eval_ok
                                     (ecsact_add_field r compo_id
                                        (ECSACT_TYPE_KIND_BUILTIN field_type len)
                                        field_name))))))
      | None \<Rightarrow> Fault undefined_behaviour)"

text \<open>\<^verbatim>\<open>eval_user_type_field_statement\<close>, lines 1089 to 1169.\<close>

definition eval_user_type_field_statement ::
  "registry \<Rightarrow> ecsact_id \<Rightarrow> ecsact_statement list \<Rightarrow> ecsact_statement \<Rightarrow> outcome" where
  "eval_user_type_field_statement r package_id context_stack statement =
     (case data statement of
        user_type_field_statement user_type_name field_name len \<Rightarrow>
          (case expect_context context_stack
                  [ECSACT_STATEMENT_COMPONENT, ECSACT_STATEMENT_TRANSIENT,
                   ECSACT_STATEMENT_ACTION] of
             (context, err) \<Rightarrow>
               if code err \<noteq> ECSACT_EVAL_OK
                 then Return (err\<lparr>relevant_content := user_type_name\<rparr>) r
               else (case disallow_statement_params statement context of
                 Some perr \<Rightarrow> Return perr r
               | None \<Rightarrow>
                   (case find_by_statement_composite r package_id (last context_stack) of
                      None \<Rightarrow> Return (eval_error ECSACT_EVAL_ERR_INVALID_CONTEXT []) r
                    | Some compo_id \<Rightarrow>
                        (if field_name_exists r compo_id field_name
                           then Return (eval_error
                                  ECSACT_EVAL_ERR_FIELD_NAME_ALREADY_EXISTS field_name) r
                         else
                           (case (find_user_field_type_by_name r package_id user_type_name len,
                                  find_field_by_full_name r package_id user_type_name) of
                              (None, None) \<Rightarrow>
                                Return (eval_error ECSACT_EVAL_ERR_UNKNOWN_FIELD_TYPE
                                          user_type_name) r
                            | (Some user_field_type, Some field_index_field_type) \<Rightarrow>
                                Return (eval_error ECSACT_EVAL_ERR_AMBIGUOUS_FIELD_TYPE
                                          user_type_name) r
                            | (Some user_field_type, None) \<Rightarrow>
                                Return eval_ok
                                  (ecsact_add_field r compo_id user_field_type field_name)
                            | (None, Some field_index_field_type) \<Rightarrow>
                                Return eval_ok
                                  (ecsact_add_field r compo_id field_index_field_type
                                     field_name))))))
      | _ \<Rightarrow> Fault undefined_behaviour)"

text \<open>\<^verbatim>\<open>eval_entity_field_statement\<close>, lines 1171 to 1181.\<close>

definition eval_entity_field_statement ::
  "registry \<Rightarrow> ecsact_id \<Rightarrow> ecsact_statement list \<Rightarrow> ecsact_statement \<Rightarrow> outcome" where
  "eval_entity_field_statement r package_id context_stack statement =
     eval_builtin_type_field_statement r package_id context_stack statement"

section \<open>Statement dispatchers: system-likes\<close>

text \<open>
  The first loop of \<^verbatim>\<open>eval_system_with_statement_data_common\<close>, lines 1240 to
  1282: each field name is resolved to the first field of the component-like that has
  the name, and the type of that field is checked.  The loop stops at the first field
  name that fails, with its error; otherwise it yields the resolved field ids in order.
\<close>

fun with_field_ids_loop ::
  "registry \<Rightarrow> ecsact_id \<Rightarrow> string list \<Rightarrow> ecsact_id list \<Rightarrow>
   ecsact_eval_error + ecsact_id list" where
  "with_field_ids_loop r comp_like_id [] with_field_ids = Inr with_field_ids"
| "with_field_ids_loop r comp_like_id (assoc_field_name # rest) with_field_ids =
     (case find (\<lambda>field_id. assoc_field_name = ecsact_meta_field_name r comp_like_id field_id)
             (get_field_ids r comp_like_id) of
        None \<Rightarrow> Inl (eval_error ECSACT_EVAL_ERR_UNKNOWN_FIELD_NAME assoc_field_name)
      | Some assoc_field_id \<Rightarrow>
          (case get_field_type r comp_like_id assoc_field_id of
             ECSACT_TYPE_KIND_BUILTIN builtin len \<Rightarrow>
               (if builtin \<noteq> ECSACT_ENTITY_TYPE
                  then Inl (eval_error ECSACT_EVAL_ERR_INVALID_ASSOC_FIELD_TYPE
                              assoc_field_name)
                else with_field_ids_loop r comp_like_id rest
                       (with_field_ids @ [assoc_field_id]))
           | ECSACT_TYPE_KIND_ENUM enum_id len \<Rightarrow>
               Inl (eval_error ECSACT_EVAL_ERR_INVALID_ASSOC_FIELD_TYPE assoc_field_name)
           | ECSACT_TYPE_KIND_FIELD_INDEX composite_id field_id \<Rightarrow>
               with_field_ids_loop r comp_like_id rest (with_field_ids @ [assoc_field_id])))"

text \<open>The second loop, lines 1293 to 1295, attaches the field ids to the new association.\<close>

fun add_system_assoc_fields ::
  "registry \<Rightarrow> ecsact_id \<Rightarrow> ecsact_id \<Rightarrow> ecsact_id list \<Rightarrow> registry" where
  "add_system_assoc_fields r sys_like_id assoc_id [] = r"
| "add_system_assoc_fields r sys_like_id assoc_id (assoc_field_id # rest) =
     add_system_assoc_fields
       (ecsact_add_system_assoc_field r sys_like_id assoc_id assoc_field_id)
       sys_like_id assoc_id rest"

text \<open>\<^verbatim>\<open>eval_system_with_statement_data_common\<close>, lines 1234 to 1298.\<close>

definition eval_system_with_statement_data_common ::
  "registry \<Rightarrow> ecsact_id \<Rightarrow> ecsact_id \<Rightarrow> string list \<Rightarrow> ecsact_eval_error \<times> registry" where
  "eval_system_with_statement_data_common r sys_like_id comp_like_id field_names =
     (case with_field_ids_loop r comp_like_id field_names [] of
        Inl err \<Rightarrow> (err, r)
      | Inr with_field_ids \<Rightarrow>
          (if with_field_ids = []
             then (eval_error ECSACT_EVAL_ERR_UNEXPECTED_STATEMENT [], r)
           else (case ecsact_add_system_assoc r sys_like_id comp_like_id of
                   (assoc_id, r1) \<Rightarrow>
                     (eval_ok, add_system_assoc_fields r1 sys_like_id assoc_id with_field_ids))))"

text \<open>
  The loop of \<^verbatim>\<open>find_assoc_ids_with_fields\<close> over the fields of one association,
  lines 1316 to 1330: a field is pushed once for every target name equal to its name,
  and the loop breaks at the first field that no target name equals.
\<close>

fun matching_fields_loop ::
  "registry \<Rightarrow> ecsact_id \<Rightarrow> string list \<Rightarrow> ecsact_id list \<Rightarrow> ecsact_id list \<Rightarrow> ecsact_id list" where
  "matching_fields_loop r comp_like_id target_field_names [] matching_fields = matching_fields"
| "matching_fields_loop r comp_like_id target_field_names (field # rest) matching_fields =
     (let hits = filter (\<lambda>target_field_name.
                           ecsact_meta_field_name r comp_like_id field = target_field_name)
                   target_field_names
      in if hits = [] then matching_fields
         else matching_fields_loop r comp_like_id target_field_names rest
                (matching_fields @ replicate (length hits) field))"

text \<open>
  The loop over the associations of the system-like, lines 1308 to 1336.  The
  \<^verbatim>\<open>std::set\<close> of association ids is a sorted list without duplicates.  The flag
  \<open>ndebug\<close> says whether the build defines \<^verbatim>\<open>NDEBUG\<close>, which turns
  \<^verbatim>\<open>assert\<close> into nothing.
\<close>

fun assoc_ids_loop ::
  "bool \<Rightarrow> registry \<Rightarrow> ecsact_id \<Rightarrow> ecsact_id \<Rightarrow> string list \<Rightarrow> ecsact_id list \<Rightarrow>
   ecsact_id list \<Rightarrow> fault + ecsact_id list" where
  "assoc_ids_loop ndebug r sys_like_id comp_like_id target_field_names [] assoc_ids =
     Inr assoc_ids"
| "assoc_ids_loop ndebug r sys_like_id comp_like_id target_field_names (assoc_id # rest)
     assoc_ids =
     (if system_assoc_component_id r sys_like_id assoc_id \<noteq> comp_like_id
        then assoc_ids_loop ndebug r sys_like_id comp_like_id target_field_names rest assoc_ids
      else
        (let assoc_field_ids = system_assoc_fields r sys_like_id assoc_id;
             matching_fields =
               matching_fields_loop r comp_like_id target_field_names assoc_field_ids []
         in if \<not> ndebug \<and> \<not> length matching_fields \<le> length assoc_field_ids
              then Inl assertion_failed
            else if length matching_fields = length assoc_field_ids
              then assoc_ids_loop ndebug r sys_like_id comp_like_id target_field_names rest
                     (insort_insert assoc_id assoc_ids)
            else assoc_ids_loop ndebug r sys_like_id comp_like_id target_field_names rest
                   assoc_ids))"

text \<open>\<^verbatim>\<open>find_assoc_ids_with_fields\<close>, lines 1300 to 1344, with its three assertions.\<close>

definition find_assoc_ids_with_fields ::
  "bool \<Rightarrow> registry \<Rightarrow> ecsact_id \<Rightarrow> ecsact_id \<Rightarrow> string list \<Rightarrow> fault + ecsact_id list" where
  "find_assoc_ids_with_fields ndebug r sys_like_id comp_like_id target_field_names =
     (if \<not> ndebug \<and> \<not> 0 < length target_field_names then Inl assertion_failed
      else (case assoc_ids_loop ndebug r sys_like_id comp_like_id target_field_names
                   (system_assoc_ids r sys_like_id) [] of
              Inl f \<Rightarrow> Inl f
            | Inr assoc_ids \<Rightarrow>
                (if \<not> ndebug \<and> assoc_ids = [] then Inl assertion_failed
                 else Inr assoc_ids)))"

text \<open>
  The use of the result at both call sites (lines 1451 to 1459 and 1508 to 1516): more
  than one id is an error, and \<^verbatim>\<open>assoc_ids.at(0)\<close> throws when there is none.
\<close>

definition single_assoc_id ::
  "bool \<Rightarrow> registry \<Rightarrow> ecsact_id \<Rightarrow> ecsact_id \<Rightarrow> string list \<Rightarrow> outcome + ecsact_id" where
  "single_assoc_id ndebug r sys_like_id assoc_comp_id field_names =
     (case find_assoc_ids_with_fields ndebug r sys_like_id assoc_comp_id field_names of
        Inl f \<Rightarrow> Inl (Fault f)
      | Inr assoc_ids \<Rightarrow>
          (if 1 < length assoc_ids
             then Inl (Return (eval_error ECSACT_EVAL_ERR_SAME_FIELDS_SYSTEM_ASSOCIATION []) r)
           else (case assoc_ids of
                   [] \<Rightarrow> Inl (Fault out_of_range_thrown)
                 | assoc_id # others \<Rightarrow> Inr assoc_id)))"

text \<open>
  The switch of \<^verbatim>\<open>eval_system_component_statement\<close> on the type of the context
  with the check that follows it, lines 1390 to 1531: it yields the enclosing
  system-like and, under a \<^verbatim>\<open>SYSTEM_COMPONENT\<close> or \<^verbatim>\<open>SYSTEM_WITH\<close> context,
  the association, or it ends the evaluation.  \<open>with_field_name_list\<close> is the list of
  the statement itself.
\<close>

definition system_component_context ::
  "bool \<Rightarrow> registry \<Rightarrow> ecsact_id \<Rightarrow> ecsact_statement list \<Rightarrow> ecsact_statement \<Rightarrow>
   string list \<Rightarrow> outcome + (ecsact_id \<times> ecsact_id option)" where
  "system_component_context ndebug r package_id context_stack context with_field_name_list =
     (case data context of
        system_statement nm \<Rightarrow>
          (case find_by_statement_system_like r package_id context of
             None \<Rightarrow> Inl (Return (eval_error ECSACT_EVAL_ERR_INVALID_CONTEXT []) r)
           | Some sys_like_id \<Rightarrow> Inr (sys_like_id, None))
      | action_statement nm \<Rightarrow>
          (case find_by_statement_system_like r package_id context of
             None \<Rightarrow> Inl (Return (eval_error ECSACT_EVAL_ERR_INVALID_CONTEXT []) r)
           | Some sys_like_id \<Rightarrow> Inr (sys_like_id, None))
      | system_component_statement context_cap context_comp_name context_with_list \<Rightarrow>
          (if length context_stack < 2
             then Inl (Return (eval_error ECSACT_EVAL_ERR_INVALID_CONTEXT []) r)
           else
             (case find_by_statement_system_like r package_id
                     (context_stack ! (length context_stack - 2)) of
                None \<Rightarrow> Inl (Return (eval_error ECSACT_EVAL_ERR_INVALID_CONTEXT []) r)
              | Some sys_like_id \<Rightarrow>
                  (case with_field_name_list of
                     first_field # others \<Rightarrow>
                       Inl (Return (eval_error ECSACT_EVAL_ERR_NESTED_ASSOC first_field) r)
                   | [] \<Rightarrow>
                       (case find_by_statement_component_like r package_id context of
                          None \<Rightarrow>
                            Inl (Return (eval_error ECSACT_EVAL_ERR_INVALID_CONTEXT []) r)
                        | Some assoc_comp_id \<Rightarrow>
                            (if context_with_list \<noteq> []
                               then (case single_assoc_id ndebug r sys_like_id assoc_comp_id
                                            context_with_list of
                                       Inl early \<Rightarrow> Inl early
                                     | Inr assoc_id \<Rightarrow> Inr (sys_like_id, Some assoc_id))
                             else Inr (sys_like_id, None))))))
      | system_with_statement context_with_list \<Rightarrow>
          (if length context_stack < 3
             then Inl (Return (eval_error ECSACT_EVAL_ERR_INVALID_CONTEXT []) r)
           else
             (case find_by_statement_system_like r package_id
                     (context_stack ! (length context_stack - 3)) of
                None \<Rightarrow> Inl (Return (eval_error ECSACT_EVAL_ERR_INVALID_CONTEXT []) r)
              | Some sys_like_id \<Rightarrow>
                  (case find_by_statement_component_like r package_id
                          (context_stack ! (length context_stack - 2)) of
                     None \<Rightarrow> Inl (Return (eval_error ECSACT_EVAL_ERR_INVALID_CONTEXT []) r)
                   | Some assoc_comp_id \<Rightarrow>
                       (case single_assoc_id ndebug r sys_like_id assoc_comp_id
                               context_with_list of
                          Inl early \<Rightarrow> Inl early
                        | Inr assoc_id \<Rightarrow> Inr (sys_like_id, Some assoc_id)))))
      | _ \<Rightarrow> Inl (Return (eval_error ECSACT_EVAL_ERR_INVALID_CONTEXT []) r))"

text \<open>
  The rest of \<^verbatim>\<open>eval_system_component_statement\<close>, lines 1533 to 1590: the notify
  check, the association of the statement's own with-list, the duplicate check in the
  capability map in scope, and the recording of the capability.
\<close>

definition system_component_record ::
  "registry \<Rightarrow> ecsact_id \<Rightarrow> ecsact_id option \<Rightarrow> ecsact_id \<Rightarrow> ecsact_system_capability \<Rightarrow>
   string \<Rightarrow> outcome" where
  "system_component_record r sys_like_id assoc_id comp_like_id capability comp_name =
     (case assoc_id of
        Some a \<Rightarrow>
          (if comp_like_id \<in> fst ` set (system_assoc_capabilities r sys_like_id a)
             then Return (eval_error
                    ECSACT_EVAL_ERR_MULTIPLE_CAPABILITIES_SAME_COMPONENT_LIKE comp_name) r
           else Return eval_ok
                  (ecsact_set_system_assoc_capability r sys_like_id a comp_like_id capability))
      | None \<Rightarrow>
          (if comp_like_id \<in> fst ` set (system_capabilities r sys_like_id)
             then Return (eval_error
                    ECSACT_EVAL_ERR_MULTIPLE_CAPABILITIES_SAME_COMPONENT_LIKE comp_name) r
           else Return eval_ok
                  (ecsact_set_system_capability r sys_like_id comp_like_id capability)))"

definition system_component_capability ::
  "registry \<Rightarrow> ecsact_id \<Rightarrow> ecsact_id option \<Rightarrow> ecsact_id \<Rightarrow> ecsact_system_capability \<Rightarrow>
   string \<Rightarrow> string list \<Rightarrow> outcome" where
  "system_component_capability r sys_like_id assoc_id comp_like_id capability comp_name
     with_field_name_list =
     (if 0 < system_notify_settings_count r sys_like_id
        then Return (eval_error ECSACT_EVAL_ERR_NOTIFY_BEFORE_SYSTEM_COMPONENT []) r
      else if with_field_name_list \<noteq> []
        then (case eval_system_with_statement_data_common r sys_like_id comp_like_id
                     with_field_name_list of
                (status, r1) \<Rightarrow>
                  if code status \<noteq> ECSACT_EVAL_OK then Return status r1
                  else system_component_record r1 sys_like_id assoc_id comp_like_id
                         capability comp_name)
      else system_component_record r sys_like_id assoc_id comp_like_id capability comp_name)"

text \<open>\<^verbatim>\<open>eval_system_component_statement\<close>, lines 1346 to 1591.\<close>

definition eval_system_component_statement ::
  "bool \<Rightarrow> registry \<Rightarrow> ecsact_id \<Rightarrow> ecsact_statement list \<Rightarrow> ecsact_statement \<Rightarrow> outcome" where
  "eval_system_component_statement ndebug r package_id context_stack statement =
     (case data statement of
        system_component_statement capability comp_name with_field_name_list \<Rightarrow>
          (case expect_context context_stack
                  [ECSACT_STATEMENT_SYSTEM, ECSACT_STATEMENT_ACTION,
                   ECSACT_STATEMENT_SYSTEM_COMPONENT, ECSACT_STATEMENT_SYSTEM_WITH] of
             (context, err) \<Rightarrow>
               if code err \<noteq> ECSACT_EVAL_OK
                 then Return (err\<lparr>relevant_content := comp_name\<rparr>) r
               else (case disallow_statement_params statement context of
                 Some perr \<Rightarrow> Return perr r
               | None \<Rightarrow>
                   (case find_by_name_component_like r package_id comp_name of
                      None \<Rightarrow>
                        Return (eval_error ECSACT_EVAL_ERR_UNKNOWN_COMPONENT_LIKE_TYPE
                                  comp_name) r
                    | Some comp_like_id \<Rightarrow>
                        (case context of
                           None \<Rightarrow> Fault undefined_behaviour
                         | Some c \<Rightarrow>
                             (case system_component_context ndebug r package_id
                                     context_stack c with_field_name_list of
                                Inl early \<Rightarrow> early
                              | Inr (sys_like_id, assoc_id) \<Rightarrow>
                                  system_component_capability r sys_like_id assoc_id
                                    comp_like_id capability comp_name
                                    with_field_name_list)))))
      | _ \<Rightarrow> Fault undefined_behaviour)"

text \<open>\<^verbatim>\<open>eval_system_generates_statement\<close>, lines 1593 to 1635.\<close>

definition eval_system_generates_statement ::
  "registry \<Rightarrow> ecsact_id \<Rightarrow> ecsact_statement list \<Rightarrow> ecsact_statement \<Rightarrow> outcome" where
  "eval_system_generates_statement r package_id context_stack statement =
     (case expect_context context_stack [ECSACT_STATEMENT_SYSTEM, ECSACT_STATEMENT_ACTION] of
        (context, err) \<Rightarrow>
          if code err \<noteq> ECSACT_EVAL_OK then Return err r
          else (case disallow_statement_params statement context of
            Some perr \<Rightarrow> Return perr r
          | None \<Rightarrow>
              (case find_by_statement_system_like r package_id (last context_stack) of
                 None \<Rightarrow> Return (eval_error ECSACT_EVAL_ERR_INVALID_CONTEXT []) r
               | Some sys_like_id \<Rightarrow>
                   (if get_system_generates_ids r sys_like_id \<noteq> []
                      then Return (eval_error
                             ECSACT_EVAL_ERR_ONLY_ONE_GENERATES_BLOCK_ALLOWED []) r
                    else Return eval_ok (snd (ecsact_add_system_generates r sys_like_id))))))"

text \<open>\<^verbatim>\<open>eval_system_with_statement\<close>, lines 1637 to 1701.\<close>

definition eval_system_with_statement ::
  "registry \<Rightarrow> ecsact_id \<Rightarrow> ecsact_statement list \<Rightarrow> ecsact_statement \<Rightarrow> outcome" where
  "eval_system_with_statement r package_id context_stack statement =
     (case data statement of
        system_with_statement with_field_name_list \<Rightarrow>
          (if length context_stack < 2
             then Return (eval_error ECSACT_EVAL_ERR_INVALID_CONTEXT []) r
           else
             (case expect_context context_stack [ECSACT_STATEMENT_SYSTEM_COMPONENT] of
                (context, err) \<Rightarrow>
                  if code err \<noteq> ECSACT_EVAL_OK
                    then (case with_field_name_list of
                            first_field # others \<Rightarrow>
                              Return (err\<lparr>relevant_content := first_field\<rparr>) r
                          | [] \<Rightarrow> Return err r)
                  else (case disallow_statement_params statement context of
                    Some perr \<Rightarrow> Return perr r
                  | None \<Rightarrow>
                      (case context of
                         None \<Rightarrow> Fault undefined_behaviour
                       | Some c \<Rightarrow>
                           (case data c of
                              system_component_statement context_cap context_comp_name
                                context_with_list \<Rightarrow>
                                (case find_by_statement_system_like r package_id
                                        (context_stack ! (length context_stack - 2)) of
                                   None \<Rightarrow>
                                     Return (eval_error ECSACT_EVAL_ERR_INVALID_CONTEXT []) r
                                 | Some sys_like_id \<Rightarrow>
                                     (case find_by_name_component_like r package_id
                                             context_comp_name of
                                        None \<Rightarrow>
                                          Return (eval_error
                                            ECSACT_EVAL_ERR_UNKNOWN_COMPONENT_LIKE_TYPE
                                            context_comp_name) r
                                      | Some comp_like_id \<Rightarrow>
                                          (case eval_system_with_statement_data_common r
                                                  sys_like_id comp_like_id
                                                  with_field_name_list of
                                             (status, r1) \<Rightarrow> Return status r1)))
                            | _ \<Rightarrow> Fault undefined_behaviour)))))
      | _ \<Rightarrow> Fault undefined_behaviour)"

text \<open>\<^verbatim>\<open>get_notify_setting_from_string\<close>, lines 1703 to 1721.\<close>

definition get_notify_setting_from_string :: "string \<Rightarrow> ecsact_system_notify_setting option" where
  "get_notify_setting_from_string setting_name =
     map_of [(''always'', ECSACT_SYS_NOTIFY_ALWAYS),
             (''oninit'', ECSACT_SYS_NOTIFY_ONINIT),
             (''onupdate'', ECSACT_SYS_NOTIFY_ONUPDATE),
             (''onchange'', ECSACT_SYS_NOTIFY_ONCHANGE),
             (''onremove'', ECSACT_SYS_NOTIFY_ONREMOVE)] setting_name"

text \<open>
  The loop of \<^verbatim>\<open>eval_system_notify_statement\<close> over the capabilities of the
  system-like, lines 1773 to 1779.
\<close>

fun set_notify_settings_loop ::
  "registry \<Rightarrow> ecsact_id \<Rightarrow> ecsact_system_notify_setting \<Rightarrow>
   (ecsact_id \<times> ecsact_system_capability) list \<Rightarrow> registry" where
  "set_notify_settings_loop r sys_like_id notify_setting [] = r"
| "set_notify_settings_loop r sys_like_id notify_setting (entry # rest) =
     set_notify_settings_loop
       (ecsact_set_system_notify_component_setting r sys_like_id (fst entry) notify_setting)
       sys_like_id notify_setting rest"

text \<open>
  \<^verbatim>\<open>eval_system_notify_statement\<close>, lines 1723 to 1783.  The system-like of the
  context is read through the optional without a check (line 1749).
\<close>

definition eval_system_notify_statement ::
  "registry \<Rightarrow> ecsact_id \<Rightarrow> ecsact_statement list \<Rightarrow> ecsact_statement \<Rightarrow> outcome" where
  "eval_system_notify_statement r package_id context_stack statement =
     (case data statement of
        system_notify_statement setting_name \<Rightarrow>
          (case expect_context context_stack
                  [ECSACT_STATEMENT_SYSTEM, ECSACT_STATEMENT_ACTION] of
             (context, err) \<Rightarrow>
               if code err \<noteq> ECSACT_EVAL_OK then Return err r
               else (case disallow_statement_params statement context of
                 Some perr \<Rightarrow> Return perr r
               | None \<Rightarrow>
                   (case context of
                      None \<Rightarrow> Fault undefined_behaviour
                    | Some c \<Rightarrow>
                        (case find_by_statement_system_like r package_id c of
                           None \<Rightarrow> Fault undefined_behaviour
                         | Some sys_like_id \<Rightarrow>
                             (if 0 < system_notify_settings_count r sys_like_id
                                then Return (eval_error
                                       ECSACT_EVAL_ERR_MULTIPLE_NOTIFY_STATEMENTS []) r
                              else if setting_name \<noteq> []
                                then (case get_notify_setting_from_string setting_name of
                                        None \<Rightarrow>
                                          Return (eval_error
                                            ECSACT_EVAL_ERR_INVALID_NOTIFY_SETTING
                                            setting_name) r
                                      | Some notify_setting \<Rightarrow>
                                          Return eval_ok
                                            (set_notify_settings_loop r sys_like_id
                                               notify_setting
                                               (system_capabilities r sys_like_id)))
                              else Return eval_ok r)))))
      | _ \<Rightarrow> Fault undefined_behaviour)"

text \<open>
  \<^verbatim>\<open>eval_system_notify_component_statement\<close>, lines 1785 to 1876.  The payload is
  the component name and the setting name; the system-like of the statement below the
  context is read through the optional without a check (line 1860).
\<close>

definition eval_system_notify_component_statement ::
  "registry \<Rightarrow> ecsact_id \<Rightarrow> ecsact_statement list \<Rightarrow> ecsact_statement \<Rightarrow> outcome" where
  "eval_system_notify_component_statement r package_id context_stack statement =
     (case data statement of
        system_notify_component_statement comp_name setting_name \<Rightarrow>
          (if length context_stack < 2
             then Return (eval_error ECSACT_EVAL_ERR_INVALID_CONTEXT []) r
           else
             (case expect_context context_stack [ECSACT_STATEMENT_SYSTEM_NOTIFY] of
                (context, err) \<Rightarrow>
                  if code err \<noteq> ECSACT_EVAL_OK then Return err r
                  else (case disallow_statement_params statement context of
                    Some perr \<Rightarrow> Return perr r
                  | None \<Rightarrow>
                      (case context of
                         None \<Rightarrow> Fault undefined_behaviour
                       | Some c \<Rightarrow>
                           (case data c of
                              system_notify_statement block_setting_name \<Rightarrow>
                                (if block_setting_name \<noteq> []
                                   then Return \<lparr>code = ECSACT_EVAL_ERR_NOTIFY_BLOCK_AND_COMPONENTS,
                                                 relevant_content = setting_name,
                                                 context_type = stype c\<rparr> r
                                 else
                                   (case find_by_name_component_like r package_id comp_name of
                                      None \<Rightarrow>
                                        Return (eval_error
                                          ECSACT_EVAL_ERR_UNKNOWN_COMPONENT_LIKE_TYPE
                                          comp_name) r
                                    | Some comp_like_id \<Rightarrow>
                                        (case get_notify_setting_from_string setting_name of
                                           None \<Rightarrow>
                                             Return (eval_error
                                               ECSACT_EVAL_ERR_INVALID_NOTIFY_SETTING
                                               setting_name) r
                                         | Some notify_setting \<Rightarrow>
                                             (case find_by_statement_system_like r package_id
                                                     (context_stack !
                                                        (length context_stack - 2)) of
                                                None \<Rightarrow> Fault undefined_behaviour
                                              | Some sys_like_id \<Rightarrow>
                                                  (if comp_like_id \<in> fst `
                                                        set (system_notify_settings r
                                                               sys_like_id)
                                                     then Return (eval_error
                                                       ECSACT_EVAL_ERR_DUPLICATE_NOTIFY_COMPONENT
                                                       []) r
                                                   else Return eval_ok
                                                     (ecsact_set_system_notify_component_setting
                                                        r sys_like_id comp_like_id
                                                        notify_setting))))))
                            | _ \<Rightarrow> Fault undefined_behaviour)))))
      | _ \<Rightarrow> Fault undefined_behaviour)"

text \<open>
  \<^verbatim>\<open>eval_entity_constraint_statement\<close>, lines 1878 to 1957.  The payload is the
  \<^verbatim>\<open>optional\<close> flag and the name of the constraint component.
\<close>

definition eval_entity_constraint_statement ::
  "registry \<Rightarrow> ecsact_id \<Rightarrow> ecsact_statement list \<Rightarrow> ecsact_statement \<Rightarrow> outcome" where
  "eval_entity_constraint_statement r package_id context_stack statement =
     (case data statement of
        entity_constraint_statement optional constraint_component_name \<Rightarrow>
          (if length context_stack < 2
             then Return (eval_error ECSACT_EVAL_ERR_INVALID_CONTEXT []) r
           else if stype (context_stack ! (length context_stack - 1)) \<noteq>
                     ECSACT_STATEMENT_SYSTEM_GENERATES
             then Return (eval_error ECSACT_EVAL_ERR_INVALID_CONTEXT []) r
           else
             (case disallow_statement_params statement
                     (Some (context_stack ! (length context_stack - 1))) of
                Some perr \<Rightarrow> Return perr r
              | None \<Rightarrow>
                  (case find_by_statement_system_like r package_id
                          (context_stack ! (length context_stack - 2)) of
                     None \<Rightarrow> Return (eval_error ECSACT_EVAL_ERR_INVALID_CONTEXT []) r
                   | Some sys_like_id \<Rightarrow>
                       (case find_by_name_component r package_id constraint_component_name of
                          None \<Rightarrow>
                            Return (eval_error ECSACT_EVAL_ERR_UNKNOWN_COMPONENT_TYPE
                                      constraint_component_name) r
                        | Some comp_id \<Rightarrow>
                            (case get_system_generates_ids r sys_like_id of
                               [] \<Rightarrow> Return (eval_error ECSACT_EVAL_ERR_INVALID_CONTEXT []) r
                             | gen_id # others \<Rightarrow>
                                 (if comp_id \<in> fst `
                                       set (get_system_generates_components r sys_like_id
                                              gen_id)
                                    then Return (eval_error
                                      ECSACT_EVAL_ERR_GENERATES_DUPLICATE_COMPONENT_CONSTRAINTS
                                      constraint_component_name) r
                                  else Return eval_ok
                                    (ecsact_system_generates_set_component r sys_like_id
                                       gen_id comp_id
                                       (if optional then ECSACT_SYS_GEN_OPTIONAL
                                        else ECSACT_SYS_GEN_REQUIRED))))))))
      | _ \<Rightarrow> Fault undefined_behaviour)"

section \<open>Entry points\<close>

text \<open>
  \<^verbatim>\<open>ecsact_eval_statement\<close>, lines 1959 to 2083.  The stack is passed as a signed
  32-bit size and a pointer; \<open>statement_stack\<close> is the array behind the pointer.  A
  size of zero returns before the pointer is used.  Any other size reads the element at
  \<open>size - 1\<close>, which lies outside the array when the size is negative or exceeds the
  array.  The switch covers every statement type, so the assertion after it is not
  reached.
\<close>

definition ecsact_eval_statement ::
  "bool \<Rightarrow> registry \<Rightarrow> ecsact_id \<Rightarrow> 32 word \<Rightarrow> ecsact_statement list \<Rightarrow> outcome" where
  "ecsact_eval_statement ndebug r package_id statement_stack_size statement_stack =
     (if statement_stack_size = 0 then Return eval_ok r
      else if sint statement_stack_size < 0 \<or>
              length statement_stack < nat (sint statement_stack_size)
        then Fault undefined_behaviour
      else
        (let statement = statement_stack ! (nat (sint statement_stack_size) - 1);
             context_statements = take (nat (sint statement_stack_size) - 1) statement_stack
         in case stype statement of
              ECSACT_STATEMENT_NONE \<Rightarrow>
                eval_none_statement r package_id context_statements statement
            | ECSACT_STATEMENT_UNKNOWN \<Rightarrow>
                eval_unknown_statement r package_id context_statements statement
            | ECSACT_STATEMENT_PACKAGE \<Rightarrow>
                Return (eval_error ECSACT_EVAL_ERR_UNEXPECTED_STATEMENT []) r
            | ECSACT_STATEMENT_IMPORT \<Rightarrow>
                eval_import_statement r package_id context_statements statement
            | ECSACT_STATEMENT_COMPONENT \<Rightarrow>
                eval_component_statement r package_id context_statements statement
            | ECSACT_STATEMENT_TRANSIENT \<Rightarrow>
                eval_transient_statement r package_id context_statements statement
            | ECSACT_STATEMENT_SYSTEM \<Rightarrow>
                eval_system_statement r package_id context_statements statement
            | ECSACT_STATEMENT_ACTION \<Rightarrow>
                eval_action_statement r package_id context_statements statement
            | ECSACT_STATEMENT_ENUM \<Rightarrow>
                eval_enum_statement r package_id context_statements statement
            | ECSACT_STATEMENT_ENUM_VALUE \<Rightarrow>
                eval_enum_value_statement r package_id context_statements statement
            | ECSACT_STATEMENT_BUILTIN_TYPE_FIELD \<Rightarrow>
                eval_builtin_type_field_statement r package_id context_statements statement
            | ECSACT_STATEMENT_USER_TYPE_FIELD \<Rightarrow>
                eval_user_type_field_statement r package_id context_statements statement
            | ECSACT_STATEMENT_ENTITY_FIELD \<Rightarrow>
                eval_entity_field_statement r package_id context_statements statement
            | ECSACT_STATEMENT_SYSTEM_COMPONENT \<Rightarrow>
                eval_system_component_statement ndebug r package_id context_statements
                  statement
            | ECSACT_STATEMENT_SYSTEM_GENERATES \<Rightarrow>
                eval_system_generates_statement r package_id context_statements statement
            | ECSACT_STATEMENT_SYSTEM_WITH \<Rightarrow>
                eval_system_with_statement r package_id context_statements statement
            | ECSACT_STATEMENT_ENTITY_CONSTRAINT \<Rightarrow>
                eval_entity_constraint_statement r package_id context_statements statement
            | ECSACT_STATEMENT_SYSTEM_NOTIFY \<Rightarrow>
                eval_system_notify_statement r package_id context_statements statement
            | ECSACT_STATEMENT_SYSTEM_NOTIFY_COMPONENT \<Rightarrow>
                eval_system_notify_component_statement r package_id context_statements
                  statement))"

text \<open>\<^verbatim>\<open>ecsact_eval_package_statement\<close>, lines 2085 to 2093.\<close>

definition ecsact_eval_package_statement :: "registry \<Rightarrow> bool \<Rightarrow> string \<Rightarrow> ecsact_id \<times> registry" where
  "ecsact_eval_package_statement r is_main pkg_name = ecsact_create_package r is_main pkg_name"

text \<open>
  The parse status code; of its values the evaluator names only the end of a block.
\<close>

datatype ecsact_parse_status_code =
    ECSACT_PARSE_STATUS_BLOCK_END
  | ECSACT_PARSE_STATUS_OTHER

text \<open>
  \<^verbatim>\<open>check_file_eval_error\<close>, lines 2098 to 2126.  The function updates the error it
  is given and changes nothing else; the action is read through the optional without a
  check (line 2116).
\<close>

definition check_file_eval_error ::
  "bool \<Rightarrow> registry \<Rightarrow> ecsact_eval_error \<Rightarrow> ecsact_id \<Rightarrow> ecsact_parse_status_code \<Rightarrow>
   ecsact_statement \<Rightarrow> string \<Rightarrow> fault + ecsact_eval_error" where
  "check_file_eval_error ndebug r in_out_error package_id status_code statement source =
     (if \<not> ndebug \<and> code in_out_error \<noteq> ECSACT_EVAL_OK then Inl assertion_failed
      else if status_code = ECSACT_PARSE_STATUS_BLOCK_END
        then (case data statement of
                action_statement act_name \<Rightarrow>
                  (case find_by_name_action r package_id act_name of
                     None \<Rightarrow> Inl undefined_behaviour
                   | Some act_id \<Rightarrow>
                       (if system_capabilities r act_id = []
                          then Inr (in_out_error\<lparr>code := ECSACT_EVAL_ERR_NO_CAPABILITIES,
                                                   relevant_content := source\<rparr>)
                        else Inr in_out_error))
              | _ \<Rightarrow> Inr in_out_error)
      else Inr in_out_error)"

section \<open>Specification predicates and example registries\<close>

text \<open>
  The lookup rule of the specification for a declaration kind with names \<open>decl_name\<close>
  and per-package declarations \<open>decl_ids\<close>: the name denotes the declaration \<open>i\<close> when
  it is the bare name or \<^verbatim>\<open>this_package.Name\<close> of a declaration of the package,
  or \<^verbatim>\<open>dep_name.Name\<close> of a declaration of one of its dependencies.
\<close>

definition spec_resolves ::
  "(ecsact_id \<Rightarrow> string) \<Rightarrow> (ecsact_id \<Rightarrow> ecsact_id list) \<Rightarrow> registry \<Rightarrow> ecsact_id \<Rightarrow>
   string \<Rightarrow> ecsact_id \<Rightarrow> bool" where
  "spec_resolves decl_name decl_ids r p n i \<longleftrightarrow>
     (i \<in> set (decl_ids p) \<and>
        (n = decl_name i \<or> n = package_name r p @ ''.'' @ decl_name i))
     \<or> (\<exists>d \<in> set (get_dependencies r p).
           i \<in> set (decl_ids d) \<and> n = package_name r d @ ''.'' @ decl_name i)"

text \<open>
  A registry with two packages: \<^verbatim>\<open>lib\<close> (id 0) declares the component
  \<^verbatim>\<open>Position\<close> (2), the system \<^verbatim>\<open>Tick\<close> (3), the action \<^verbatim>\<open>Fire\<close> (5)
  and the transient \<^verbatim>\<open>Hit\<close> (6); \<^verbatim>\<open>game\<close> (id 1) imports \<^verbatim>\<open>lib\<close> and
  declares the system \<^verbatim>\<open>Move\<close> (4) and the enum \<^verbatim>\<open>Color\<close> (7).
\<close>

definition two_package_registry :: registry where
  "two_package_registry =
     empty_registry
       \<lparr>next_id := 8,
        get_package_ids := [0, 1],
        package_name := (\<lambda>_. [])(0 := ''lib'', 1 := ''game''),
        get_dependencies := (\<lambda>_. [])(1 := [0]),
        get_component_ids := (\<lambda>_. [])(0 := [2]),
        get_transient_ids := (\<lambda>_. [])(0 := [6]),
        get_system_ids := (\<lambda>_. [])(0 := [3], 1 := [4]),
        get_action_ids := (\<lambda>_. [])(0 := [5]),
        get_enum_ids := (\<lambda>_. [])(1 := [7]),
        component_name := (\<lambda>_. [])(2 := ''Position''),
        transient_name := (\<lambda>_. [])(6 := ''Hit''),
        system_name := (\<lambda>_. [])(3 := ''Tick'', 4 := ''Move''),
        action_name := (\<lambda>_. [])(5 := ''Fire''),
        enum_name := (\<lambda>_. [])(7 := ''Color'')\<rparr>"

text \<open>
  The two conditions of the specification on a field name of an association: the name
  resolves to a field of the component-like, and the type of that field is the builtin
  entity type or a field index.
\<close>

definition assoc_field_type_ok :: "ecsact_field_type \<Rightarrow> bool" where
  "assoc_field_type_ok t =
     (case t of
        ECSACT_TYPE_KIND_BUILTIN builtin len \<Rightarrow> builtin = ECSACT_ENTITY_TYPE
      | ECSACT_TYPE_KIND_ENUM enum_id len \<Rightarrow> False
      | ECSACT_TYPE_KIND_FIELD_INDEX composite_id field_id \<Rightarrow> True)"

definition assoc_field_ok :: "registry \<Rightarrow> ecsact_id \<Rightarrow> string \<Rightarrow> bool" where
  "assoc_field_ok r comp_like_id field_name =
     (case find_field_by_name r comp_like_id field_name of
        None \<Rightarrow> False
      | Some field_id \<Rightarrow> assoc_field_type_ok (get_field_type r comp_like_id field_id))"

text \<open>
  The registry of two packages in which the component \<^verbatim>\<open>Position\<close> (2) has the
  fields \<^verbatim>\<open>target\<close> (0, an entity), \<^verbatim>\<open>x\<close> (1, a float) and \<^verbatim>\<open>link\<close>
  (2, a field index).
\<close>

definition fields_registry :: registry where
  "fields_registry =
     two_package_registry
       \<lparr>composite_fields := (\<lambda>_. [])
          (2 := [(0, ''target'', ECSACT_TYPE_KIND_BUILTIN ECSACT_ENTITY_TYPE 0),
                 (1, ''x'', ECSACT_TYPE_KIND_BUILTIN ECSACT_F32 0),
                 (2, ''link'', ECSACT_TYPE_KIND_FIELD_INDEX 2 0)])\<rparr>"

text \<open>
  The registry of two packages after \<^verbatim>\<open>readwrite lib.Position\<close> (capability 3 on
  component 2) in the system \<^verbatim>\<open>Move\<close> (4), and the same after a notify setting
  for that component was registered.
\<close>

definition capability_registry :: registry where
  "capability_registry = ecsact_set_system_capability two_package_registry 4 2 3"

definition notified_registry :: registry where
  "notified_registry =
     ecsact_set_system_notify_component_setting capability_registry 4 2
       ECSACT_SYS_NOTIFY_ALWAYS"

section \<open>Statement streams\<close>

text \<open>
  Modelled from the spec: the driver, which is outside the evaluator, presents the
  statements of a file in source order, each as the stack of its open blocks with the
  statement itself on top, and treats the first result that is not OK as fatal for the
  file (sections 5 and 7 of the specification).  A call that does not return ends the
  run as well.
\<close>

fun eval_stream ::
  "bool \<Rightarrow> registry \<Rightarrow> ecsact_id \<Rightarrow> ecsact_statement list list \<Rightarrow> outcome" where
  "eval_stream ndebug r package_id [] = Return eval_ok r"
| "eval_stream ndebug r package_id (statement_stack # rest) =
     (case ecsact_eval_statement ndebug r package_id (of_nat (length statement_stack))
             statement_stack of
        Return err r1 \<Rightarrow>
          (if code err = ECSACT_EVAL_OK then eval_stream ndebug r1 package_id rest
           else Return err r1)
      | Fault f \<Rightarrow> Fault f)"

text \<open>The error code that an outcome returns, if it returns.\<close>

fun returned_code :: "outcome \<Rightarrow> ecsact_eval_error_code option" where
  "returned_code (Return err r) = Some (code err)"
| "returned_code (Fault f) = None"

text \<open>A statement without parameters.\<close>

definition stmt :: "ecsact_statement_data \<Rightarrow> ecsact_statement" where
  "stmt d = \<lparr>data = d, parameters = []\<rparr>"

text \<open>The registry after the file header \<^verbatim>\<open>main package game;\<close>: one package, id 0.\<close>

definition game_registry :: registry where
  "game_registry = snd (ecsact_eval_package_statement empty_registry True ''game'')"

text \<open>The fault that ends an outcome that does not return.\<close>

fun raised_fault :: "outcome \<Rightarrow> fault option" where
  "raised_fault (Return err r) = None"
| "raised_fault (Fault f) = Some f"

section \<open>Properties of the typed parameter lookup\<close>

lemma last_option_Nil: "last_option [] = None"
  by (simp add: last_option_def)

lemma last_option_Cons:
  "last_option (x # xs) = (case last_option xs of None \<Rightarrow> Some x | Some y \<Rightarrow> Some y)"
  by (cases "rev xs") (simp_all add: last_option_def)

lemma statement_param_int32_loop_reached:
  "statement_param_int32_loop ps n acc =
     (case last_option (reached_params is_integer_value n ps) of
        None \<Rightarrow> acc
      | Some p \<Rightarrow> int32_of (pvalue p))"
proof (induction ps arbitrary: acc)
  case Nil
  show ?case by (simp add: reached_params_def last_option_Nil)
next
  case (Cons p ps)
  show ?case
  proof (cases "name p = n")
    case False
    then show ?thesis using Cons.IH [of acc] by (simp add: reached_params_def)
  next
    case True
    then show ?thesis using Cons.IH
      by (cases "pvalue p")
        (auto simp add: reached_params_def last_option_Nil last_option_Cons
          split: option.splits)
  qed
qed

lemma statement_param_bool_loop_reached:
  "statement_param_bool_loop ps n acc =
     (case last_option (reached_params is_bool_value n ps) of
        None \<Rightarrow> acc
      | Some p \<Rightarrow> bool_of (pvalue p))"
proof (induction ps arbitrary: acc)
  case Nil
  show ?case by (simp add: reached_params_def last_option_Nil)
next
  case (Cons p ps)
  show ?case
  proof (cases "name p = n")
    case False
    then show ?thesis using Cons.IH [of acc] by (simp add: reached_params_def)
  next
    case True
    then show ?thesis using Cons.IH
      by (cases "pvalue p")
        (auto simp add: reached_params_def last_option_Nil last_option_Cons
          split: option.splits)
  qed
qed

lemma statement_param_int32_loop_other_names:
  "\<forall>p \<in> set ps. name p \<noteq> n \<Longrightarrow> statement_param_int32_loop ps n acc = acc"
  by (induction ps arbitrary: acc) simp_all

lemma spec_first_int32_param_other_names:
  "\<forall>p \<in> set ps. name p \<noteq> n \<Longrightarrow> spec_first_int32_param ps n = None"
  by (induction ps) (simp_all split: ecsact_statement_parameter_value.splits)

lemma statement_param_bool_loop_other_names:
  "\<forall>p \<in> set ps. name p \<noteq> n \<Longrightarrow> statement_param_bool_loop ps n acc = acc"
  by (induction ps arbitrary: acc) simp_all

lemma spec_first_bool_param_other_names:
  "\<forall>p \<in> set ps. name p \<noteq> n \<Longrightarrow> spec_first_bool_param ps n = None"
  by (induction ps) (simp_all split: ecsact_statement_parameter_value.splits)

lemma filter_name_empty:
  "filter (\<lambda>p. name p = n) ps = [] \<Longrightarrow> \<forall>p \<in> set ps. name p \<noteq> n"
  by (simp add: filter_empty_conv)

lemma statement_param_int32_loop_single_name:
  "length (filter (\<lambda>p. name p = n) ps) \<le> 1 \<Longrightarrow>
   statement_param_int32_loop ps n None = spec_first_int32_param ps n"
proof (induction ps)
  case Nil
  show ?case by simp
next
  case (Cons p ps)
  show ?case
  proof (cases "name p = n")
    case False
    then show ?thesis using Cons
      by (simp split: ecsact_statement_parameter_value.splits)
  next
    case True
    with Cons.prems have "filter (\<lambda>p. name p = n) ps = []" by simp
    then have other: "\<forall>q \<in> set ps. name q \<noteq> n" by (rule filter_name_empty)
    show ?thesis
      using True statement_param_int32_loop_other_names [OF other]
        spec_first_int32_param_other_names [OF other]
      by (cases "pvalue p") simp_all
  qed
qed

lemma statement_param_bool_loop_single_name:
  "length (filter (\<lambda>p. name p = n) ps) \<le> 1 \<Longrightarrow>
   statement_param_bool_loop ps n None = spec_first_bool_param ps n"
proof (induction ps)
  case Nil
  show ?case by simp
next
  case (Cons p ps)
  show ?case
  proof (cases "name p = n")
    case False
    then show ?thesis using Cons
      by (simp split: ecsact_statement_parameter_value.splits)
  next
    case True
    with Cons.prems have "filter (\<lambda>p. name p = n) ps = []" by simp
    then have other: "\<forall>q \<in> set ps. name q \<noteq> n" by (rule filter_name_empty)
    show ?thesis
      using True statement_param_bool_loop_other_names [OF other]
        spec_first_bool_param_other_names [OF other]
      by (cases "pvalue p") simp_all
  qed
qed

text \<open>
  Claim C4, as stated, fails on the code.  With the parameters
  \<^verbatim>\<open>lazy: true, lazy: 5\<close> the integer lookup of \<^verbatim>\<open>lazy\<close> stops at the
  bool parameter and finds nothing, although a later parameter of that name holds an
  integer; with \<^verbatim>\<open>lazy: 1, lazy: 2\<close> it returns the value of the last
  parameter, 2, not of the first.
\<close>

theorem C4_statement_param_counterexample:
  "statement_param_int32
     \<lparr>data = system_statement ''S'',
      parameters = [\<lparr>name = ''lazy'', pvalue = bool_value True\<rparr>,
                    \<lparr>name = ''lazy'', pvalue = integer_value 5\<rparr>]\<rparr> ''lazy'' = None
   \<and> spec_first_int32_param
       [\<lparr>name = ''lazy'', pvalue = bool_value True\<rparr>,
        \<lparr>name = ''lazy'', pvalue = integer_value 5\<rparr>] ''lazy'' = Some 5
   \<and> statement_param_int32
       \<lparr>data = system_statement ''S'',
        parameters = [\<lparr>name = ''lazy'', pvalue = integer_value 1\<rparr>,
                      \<lparr>name = ''lazy'', pvalue = integer_value 2\<rparr>]\<rparr> ''lazy'' = Some 2
   \<and> spec_first_int32_param
       [\<lparr>name = ''lazy'', pvalue = integer_value 1\<rparr>,
        \<lparr>name = ''lazy'', pvalue = integer_value 2\<rparr>] ''lazy'' = Some 1"
  by (simp add: statement_param_int32_def)

text \<open>
  Claim C4, amended: the typed lookup (for \<^verbatim>\<open>int32_t\<close> and for \<^verbatim>\<open>bool\<close>)
  scans the parameters in order and returns the value of the last parameter of the
  matching name and requested type that comes before the first parameter of that name
  whose value has another type; it returns nothing when there is no such parameter.  A
  parameter of the matching name and another type ends the search.  When at most one
  parameter carries the name, the result is the value of the first parameter of matching
  name and requested type, as the specification words it.
\<close>

theorem C4_statement_param_amended:
  "statement_param_int32 s n =
     (case last_option (reached_params is_integer_value n (parameters s)) of
        None \<Rightarrow> None
      | Some p \<Rightarrow> int32_of (pvalue p))
   \<and> statement_param_bool s n =
     (case last_option (reached_params is_bool_value n (parameters s)) of
        None \<Rightarrow> None
      | Some p \<Rightarrow> bool_of (pvalue p))
   \<and> (length (filter (\<lambda>p. name p = n) (parameters s)) \<le> 1 \<longrightarrow>
        statement_param_int32 s n = spec_first_int32_param (parameters s) n
      \<and> statement_param_bool s n = spec_first_bool_param (parameters s) n)"
  unfolding statement_param_int32_def statement_param_bool_def
  using statement_param_int32_loop_reached [of "parameters s" n None]
    statement_param_bool_loop_reached [of "parameters s" n None]
    statement_param_int32_loop_single_name [of n "parameters s"]
    statement_param_bool_loop_single_name [of n "parameters s"]
  by simp

theorem C4_statement_param_amended_witness:
  "length (filter (\<lambda>p. name p = ''lazy'')
      [\<lparr>name = ''parallel'', pvalue = bool_value True\<rparr>,
       \<lparr>name = ''lazy'', pvalue = integer_value 7\<rparr>]) \<le> 1
   \<and> statement_param_int32
       \<lparr>data = system_statement ''S'',
        parameters = [\<lparr>name = ''parallel'', pvalue = bool_value True\<rparr>,
                      \<lparr>name = ''lazy'', pvalue = integer_value 7\<rparr>]\<rparr> ''lazy'' = Some 7
   \<and> statement_param_bool
       \<lparr>data = system_statement ''S'',
        parameters = [\<lparr>name = ''parallel'', pvalue = bool_value True\<rparr>,
                      \<lparr>name = ''lazy'', pvalue = integer_value 7\<rparr>]\<rparr> ''lazy'' = None"
  using C4_statement_param_amended
    [of "\<lparr>data = system_statement ''S'',
          parameters = [\<lparr>name = ''parallel'', pvalue = bool_value True\<rparr>,
                        \<lparr>name = ''lazy'', pvalue = integer_value 7\<rparr>]\<rparr>" "''lazy''"]
  by (simp add: reached_params_def last_option_def)

section \<open>Properties of the name resolver\<close>

lemma find_in_package_Some:
  "find_in_package dn pn n ids = Some i \<Longrightarrow>
   i \<in> set ids \<and> (n = dn i \<or> n = pn @ ''.'' @ dn i)"
  by (induction ids) (auto split: if_splits)

lemma find_in_package_complete:
  "i \<in> set ids \<Longrightarrow> n = dn i \<or> n = pn @ ''.'' @ dn i \<Longrightarrow>
   \<exists>j. find_in_package dn pn n ids = Some j"
  by (induction ids) auto

lemma find_in_dependency_Some:
  "find_in_dependency dn dpn n ids = Some i \<Longrightarrow> i \<in> set ids \<and> n = dpn @ ''.'' @ dn i"
  by (induction ids) (auto split: if_splits)

lemma find_in_dependency_complete:
  "i \<in> set ids \<Longrightarrow> n = dpn @ ''.'' @ dn i \<Longrightarrow>
   \<exists>j. find_in_dependency dn dpn n ids = Some j"
  by (induction ids) auto

lemma find_in_dependencies_Some:
  "find_in_dependencies pns dids dn n deps = Some i \<Longrightarrow>
   \<exists>d \<in> set deps. i \<in> set (dids d) \<and> n = pns d @ ''.'' @ dn i"
  by (induction deps) (auto split: option.splits dest: find_in_dependency_Some)

lemma find_in_dependencies_complete:
  "d \<in> set deps \<Longrightarrow> i \<in> set (dids d) \<Longrightarrow> n = pns d @ ''.'' @ dn i \<Longrightarrow>
   \<exists>j. find_in_dependencies pns dids dn n deps = Some j"
proof (induction deps)
  case Nil
  then show ?case by simp
next
  case (Cons a deps)
  show ?case
  proof (cases "find_in_dependency dn (pns a) n (dids a)")
    case (Some j)
    then show ?thesis by simp
  next
    case None
    with Cons.prems find_in_dependency_complete [of i "dids a" n "pns a" dn]
    have "d \<noteq> a" by auto
    with Cons None show ?thesis by simp
  qed
qed

lemma find_bare_name_find: "find_bare_name dn n ids = find (\<lambda>i. n = dn i) ids"
  by (induction ids) auto

text \<open>
  The body shared by the component, transient and enum variants is sound and complete
  for the lookup rule, and tries the package's own declarations first.
\<close>

lemma resolver_sound:
  assumes "(case find_in_package dn (package_name r p) n (dids p) of
              Some i \<Rightarrow> Some i
            | None \<Rightarrow> find_in_dependencies (package_name r) dids dn n (get_dependencies r p))
           = Some i"
  shows "spec_resolves dn dids r p n i"
proof (cases "find_in_package dn (package_name r p) n (dids p)")
  case (Some j)
  with assms have "j = i" by simp
  with Some find_in_package_Some [of dn "package_name r p" n "dids p" i]
  show ?thesis by (simp add: spec_resolves_def)
next
  case None
  with assms
  have "find_in_dependencies (package_name r) dids dn n (get_dependencies r p) = Some i"
    by simp
  from find_in_dependencies_Some [OF this] show ?thesis
    by (simp add: spec_resolves_def)
qed

lemma resolver_complete:
  assumes "spec_resolves dn dids r p n i"
  shows "\<exists>j. (case find_in_package dn (package_name r p) n (dids p) of
              Some i \<Rightarrow> Some i
            | None \<Rightarrow> find_in_dependencies (package_name r) dids dn n (get_dependencies r p))
           = Some j"
proof (cases "find_in_package dn (package_name r p) n (dids p)")
  case (Some j)
  then show ?thesis by simp
next
  case None
  with find_in_package_complete [of i "dids p" n dn "package_name r p"] assms
  obtain d where "d \<in> set (get_dependencies r p)" "i \<in> set (dids d)"
    "n = package_name r d @ ''.'' @ dn i"
    by (auto simp add: spec_resolves_def)
  with find_in_dependencies_complete
    [where d = d and deps = "get_dependencies r p" and i = i and dids = dids and n = n
       and pns = "package_name r" and dn = dn]
    None show ?thesis by simp
qed

lemma resolver_package_first:
  assumes "j \<in> set (dids p) \<and> (n = dn j \<or> n = package_name r p @ ''.'' @ dn j)"
  shows "\<exists>i \<in> set (dids p). (case find_in_package dn (package_name r p) n (dids p) of
              Some i \<Rightarrow> Some i
            | None \<Rightarrow> find_in_dependencies (package_name r) dids dn n (get_dependencies r p))
           = Some i"
proof -
  from assms find_in_package_complete
    [where i = j and ids = "dids p" and n = n and dn = dn and pn = "package_name r p"]
  obtain i where i: "find_in_package dn (package_name r p) n (dids p) = Some i" by blast
  with find_in_package_Some [OF i] show ?thesis by simp
qed

text \<open>
  Claim C1, as stated, fails on the code.  In the registry of two packages the system
  variant finds \<^verbatim>\<open>Move\<close> in \<^verbatim>\<open>game\<close> by its bare name, but neither by
  \<^verbatim>\<open>game.Move\<close> nor the imported system by \<^verbatim>\<open>lib.Tick\<close>; the action variant
  finds \<^verbatim>\<open>Fire\<close> in \<^verbatim>\<open>lib\<close> by its bare name, but not by \<^verbatim>\<open>lib.Fire\<close>,
  neither from \<^verbatim>\<open>lib\<close> nor from \<^verbatim>\<open>game\<close>.  The component variant resolves
  \<^verbatim>\<open>lib.Position\<close> from both packages.
\<close>

theorem C1_find_by_name_counterexample:
  "find_by_name_system two_package_registry 1 ''Move'' = Some 4
   \<and> find_by_name_system two_package_registry 1 ''game.Move'' = None
   \<and> find_by_name_system two_package_registry 1 ''lib.Tick'' = None
   \<and> find_by_name_action two_package_registry 0 ''Fire'' = Some 5
   \<and> find_by_name_action two_package_registry 0 ''lib.Fire'' = None
   \<and> find_by_name_action two_package_registry 1 ''lib.Fire'' = None
   \<and> find_by_name_component two_package_registry 0 ''lib.Position'' = Some 2
   \<and> find_by_name_component two_package_registry 1 ''lib.Position'' = Some 2"
  by (simp add: two_package_registry_def empty_registry_def find_by_name_system_def
        find_by_name_action_def find_by_name_component_def)

text \<open>
  Claim C1, amended: for every registry, package and lookup name, the component,
  transient and enum variants resolve the name exactly when it is the bare name or
  \<^verbatim>\<open>this_package.Name\<close> of a declaration of the package or \<^verbatim>\<open>dep_name.Name\<close>
  of a declaration of a dependency, they return such a declaration, and a match in the
  package itself wins over the dependencies.  The system and action variants return the
  first system, respectively action, of the package itself whose bare name is the lookup
  name, and nothing otherwise.
\<close>

theorem C1_find_by_name_amended:
  "(find_by_name_component r p n = Some i \<longrightarrow>
      spec_resolves (component_name r) (get_component_ids r) r p n i)
   \<and> (spec_resolves (component_name r) (get_component_ids r) r p n i \<longrightarrow>
        (\<exists>j. find_by_name_component r p n = Some j))
   \<and> (i \<in> set (get_component_ids r p) \<and>
        (n = component_name r i \<or> n = package_name r p @ ''.'' @ component_name r i) \<longrightarrow>
        (\<exists>j \<in> set (get_component_ids r p). find_by_name_component r p n = Some j))
   \<and> (find_by_name_transient r p n = Some i \<longrightarrow>
        spec_resolves (transient_name r) (get_transient_ids r) r p n i)
   \<and> (spec_resolves (transient_name r) (get_transient_ids r) r p n i \<longrightarrow>
        (\<exists>j. find_by_name_transient r p n = Some j))
   \<and> (i \<in> set (get_transient_ids r p) \<and>
        (n = transient_name r i \<or> n = package_name r p @ ''.'' @ transient_name r i) \<longrightarrow>
        (\<exists>j \<in> set (get_transient_ids r p). find_by_name_transient r p n = Some j))
   \<and> (find_by_name_enum r p n = Some i \<longrightarrow>
        spec_resolves (enum_name r) (get_enum_ids r) r p n i)
   \<and> (spec_resolves (enum_name r) (get_enum_ids r) r p n i \<longrightarrow>
        (\<exists>j. find_by_name_enum r p n = Some j))
   \<and> (i \<in> set (get_enum_ids r p) \<and>
        (n = enum_name r i \<or> n = package_name r p @ ''.'' @ enum_name r i) \<longrightarrow>
        (\<exists>j \<in> set (get_enum_ids r p). find_by_name_enum r p n = Some j))
   \<and> find_by_name_system r p n = find (\<lambda>i. n = system_name r i) (get_system_ids r p)
   \<and> find_by_name_action r p n = find (\<lambda>i. n = action_name r i) (get_action_ids r p)"
  unfolding find_by_name_component_def find_by_name_transient_def find_by_name_enum_def
    find_by_name_system_def find_by_name_action_def
  using resolver_sound [where dn = "component_name r" and dids = "get_component_ids r" and r = r and p = p and n = n and i = i]
    resolver_complete [where dn = "component_name r" and dids = "get_component_ids r" and r = r and p = p and n = n and i = i]
    resolver_package_first [where dn = "component_name r" and dids = "get_component_ids r" and r = r and p = p and n = n and j = i]
    resolver_sound [where dn = "transient_name r" and dids = "get_transient_ids r" and r = r and p = p and n = n and i = i]
    resolver_complete [where dn = "transient_name r" and dids = "get_transient_ids r" and r = r and p = p and n = n and i = i]
    resolver_package_first [where dn = "transient_name r" and dids = "get_transient_ids r" and r = r and p = p and n = n and j = i]
    resolver_sound [where dn = "enum_name r" and dids = "get_enum_ids r" and r = r and p = p and n = n and i = i]
    resolver_complete [where dn = "enum_name r" and dids = "get_enum_ids r" and r = r and p = p and n = n and i = i]
    resolver_package_first [where dn = "enum_name r" and dids = "get_enum_ids r" and r = r and p = p and n = n and j = i]
    find_bare_name_find [where dn = "system_name r" and n = n and ids = "get_system_ids r p"]
    find_bare_name_find [where dn = "action_name r" and n = n and ids = "get_action_ids r p"]
  by blast

theorem C1_find_by_name_amended_witness:
  "find_by_name_component two_package_registry 1 ''lib.Position'' = Some 2
   \<and> spec_resolves (component_name two_package_registry)
       (get_component_ids two_package_registry) two_package_registry 1 ''lib.Position'' 2
   \<and> 2 \<in> set (get_component_ids two_package_registry 0)
   \<and> (\<exists>j \<in> set (get_component_ids two_package_registry 0).
         find_by_name_component two_package_registry 0 ''lib.Position'' = Some j)
   \<and> find_by_name_transient two_package_registry 1 ''lib.Hit'' = Some 6
   \<and> spec_resolves (transient_name two_package_registry)
       (get_transient_ids two_package_registry) two_package_registry 1 ''lib.Hit'' 6
   \<and> find_by_name_enum two_package_registry 1 ''Color'' = Some 7
   \<and> spec_resolves (enum_name two_package_registry)
       (get_enum_ids two_package_registry) two_package_registry 1 ''Color'' 7
   \<and> (\<exists>j \<in> set (get_enum_ids two_package_registry 1).
         find_by_name_enum two_package_registry 1 ''game.Color'' = Some j)
   \<and> find_by_name_system two_package_registry 1 ''Move'' = Some 4"
  using C1_find_by_name_amended [of two_package_registry 1 "''lib.Position''" 2]
    C1_find_by_name_amended [of two_package_registry 0 "''lib.Position''" 2]
    C1_find_by_name_amended [of two_package_registry 1 "''lib.Hit''" 6]
    C1_find_by_name_amended [of two_package_registry 1 "''Color''" 7]
    C1_find_by_name_amended [of two_package_registry 1 "''game.Color''" 7]
    C1_find_by_name_amended [of two_package_registry 1 "''Move''" 4]
  by (simp add: two_package_registry_def empty_registry_def spec_resolves_def
        find_by_name_component_def find_by_name_transient_def find_by_name_enum_def)

section \<open>Basic facts about contexts, parameters and errors\<close>

lemma expect_context_allowed:
  "context_stack \<noteq> [] \<Longrightarrow> stype (last context_stack) \<in> set context_types \<Longrightarrow>
   expect_context context_stack context_types = (Some (last context_stack), eval_ok)"
  by (simp add: expect_context_def)

lemma disallow_statement_params_none:
  "parameters statement = [] \<Longrightarrow> disallow_statement_params statement context = None"
  by (simp add: disallow_statement_params_def allow_statement_params_def)

lemma code_eval_ok: "code eval_ok = ECSACT_EVAL_OK"
  by (simp add: eval_ok_def)

lemma code_eval_error: "code (eval_error c content) = c"
  by (simp add: eval_error_def)

section \<open>The entry point on an empty stack\<close>

text \<open>
  Claim C10: with a statement stack size of 0, \<^verbatim>\<open>ecsact_eval_statement\<close> returns the
  OK error value, whose code is \<^verbatim>\<open>ECSACT_EVAL_OK\<close>, and the registry it leaves is
  the registry it was given.  The result is the same for every array behind the stack
  pointer, also for none at all, so the pointer is not read.
\<close>

theorem C10_eval_statement_empty_stack:
  "ecsact_eval_statement ndebug r package_id 0 statement_stack = Return eval_ok r
   \<and> code eval_ok = ECSACT_EVAL_OK"
  by (simp add: ecsact_eval_statement_def eval_ok_def)

theorem C10_eval_statement_empty_stack_witness:
  "ecsact_eval_statement False two_package_registry 1 0 [] = Return eval_ok two_package_registry
   \<and> ecsact_eval_statement True two_package_registry 1 0
        [\<lparr>data = system_statement ''Move'', parameters = []\<rparr>]
      = Return eval_ok two_package_registry"
  using C10_eval_statement_empty_stack [of False two_package_registry 1 "[]"]
    C10_eval_statement_empty_stack
      [of True two_package_registry 1 "[\<lparr>data = system_statement ''Move'', parameters = []\<rparr>]"]
  by simp

section \<open>The end-of-block hook\<close>

text \<open>
  Claim C9: when the hook runs with the error at OK on a block-end status and an action
  statement whose action is registered, it sets the error code to
  \<^verbatim>\<open>NO_CAPABILITIES\<close> (with the source as relevant content) if the capability map
  of the action is empty, and it leaves the error as it was, at OK, if the action has at
  least one capability.
\<close>

theorem C9_check_file_eval_error:
  assumes "code in_out_error = ECSACT_EVAL_OK"
    and "data statement = action_statement act_name"
    and "find_by_name_action r package_id act_name = Some act_id"
  shows "(system_capabilities r act_id = [] \<longrightarrow>
           check_file_eval_error ndebug r in_out_error package_id
             ECSACT_PARSE_STATUS_BLOCK_END statement source
           = Inr (in_out_error\<lparr>code := ECSACT_EVAL_ERR_NO_CAPABILITIES,
                                relevant_content := source\<rparr>))
       \<and> (system_capabilities r act_id \<noteq> [] \<longrightarrow>
           check_file_eval_error ndebug r in_out_error package_id
             ECSACT_PARSE_STATUS_BLOCK_END statement source
           = Inr in_out_error
           \<and> code in_out_error = ECSACT_EVAL_OK)"
  using assms by (simp add: check_file_eval_error_def)

theorem C9_check_file_eval_error_witness:
  "code eval_ok = ECSACT_EVAL_OK
   \<and> find_by_name_action two_package_registry 0 ''Fire'' = Some 5
   \<and> system_capabilities two_package_registry 5 = []
   \<and> check_file_eval_error False two_package_registry eval_ok 0
        ECSACT_PARSE_STATUS_BLOCK_END \<lparr>data = action_statement ''Fire'', parameters = []\<rparr>
        ''action Fire {}''
      = Inr (eval_ok\<lparr>code := ECSACT_EVAL_ERR_NO_CAPABILITIES,
                      relevant_content := ''action Fire {}''\<rparr>)
   \<and> find_by_name_action (ecsact_set_system_capability two_package_registry 5 2 3) 0 ''Fire''
      = Some 5
   \<and> system_capabilities (ecsact_set_system_capability two_package_registry 5 2 3) 5 \<noteq> []
   \<and> check_file_eval_error False (ecsact_set_system_capability two_package_registry 5 2 3)
        eval_ok 0 ECSACT_PARSE_STATUS_BLOCK_END
        \<lparr>data = action_statement ''Fire'', parameters = []\<rparr> ''action Fire { readwrite Position; }''
      = Inr eval_ok"
proof -
  have a: "find_by_name_action two_package_registry 0 ''Fire'' = Some 5"
    by (simp add: two_package_registry_def empty_registry_def find_by_name_action_def)
  have b: "find_by_name_action (ecsact_set_system_capability two_package_registry 5 2 3) 0
             ''Fire'' = Some 5"
    by (simp add: two_package_registry_def empty_registry_def find_by_name_action_def
          ecsact_set_system_capability_def)
  have c: "system_capabilities two_package_registry 5 = []"
    by (simp add: two_package_registry_def empty_registry_def)
  have d: "system_capabilities (ecsact_set_system_capability two_package_registry 5 2 3) 5 \<noteq> []"
    by (simp add: ecsact_set_system_capability_def)
  show ?thesis
    using a b c d
      C9_check_file_eval_error [OF code_eval_ok _ a, of
        "\<lparr>data = action_statement ''Fire'', parameters = []\<rparr>" False "''action Fire {}''"]
      C9_check_file_eval_error [OF code_eval_ok _ b, of
        "\<lparr>data = action_statement ''Fire'', parameters = []\<rparr>" False
        "''action Fire { readwrite Position; }''"]
    by (simp add: code_eval_ok)
qed

section \<open>Generates-blocks\<close>

lemma generates_total:
  "\<exists>e r'. eval_system_generates_statement r package_id context_stack statement = Return e r'"
  by (simp add: eval_system_generates_statement_def split: prod.splits option.splits)

lemma generates_invariant:
  "eval_system_generates_statement r package_id context_stack statement = Return e r' \<Longrightarrow>
   length (get_system_generates_ids r s) \<le> 1 \<Longrightarrow>
   length (get_system_generates_ids r' s) \<le> 1"
  by (auto simp add: eval_system_generates_statement_def ecsact_add_system_generates_def
        get_system_generates_ids_def split: prod.splits option.splits if_splits)

lemma generates_cases:
  assumes "context_stack \<noteq> []"
    and "stype (last context_stack) \<in> {ECSACT_STATEMENT_SYSTEM, ECSACT_STATEMENT_ACTION}"
    and "parameters statement = []"
    and "find_by_statement_system_like r package_id (last context_stack) = Some sys_like_id"
  shows "(get_system_generates_ids r sys_like_id \<noteq> [] \<longrightarrow>
            eval_system_generates_statement r package_id context_stack statement
            = Return (eval_error ECSACT_EVAL_ERR_ONLY_ONE_GENERATES_BLOCK_ALLOWED []) r)
       \<and> (get_system_generates_ids r sys_like_id = [] \<longrightarrow>
            (\<exists>r'. eval_system_generates_statement r package_id context_stack statement
                   = Return eval_ok r'
                 \<and> length (get_system_generates_ids r' sys_like_id) = 1
                 \<and> (\<forall>s. s \<noteq> sys_like_id \<longrightarrow>
                       get_system_generates_ids r' s = get_system_generates_ids r s)))"
proof -
  from assms(1,2)
  have ctx: "expect_context context_stack [ECSACT_STATEMENT_SYSTEM, ECSACT_STATEMENT_ACTION]
             = (Some (last context_stack), eval_ok)"
    by (intro expect_context_allowed) auto
  show ?thesis
    using assms(4) disallow_statement_params_none [OF assms(3)]
    by (simp add: eval_system_generates_statement_def ctx code_eval_ok
          ecsact_add_system_generates_def get_system_generates_ids_def)
qed

text \<open>
  Claim C6: evaluating a \<^verbatim>\<open>SYSTEM_GENERATES\<close> statement always returns, and a
  system-like that owned at most one generates-block owns at most one afterwards.  For
  a statement without parameters under a \<^verbatim>\<open>SYSTEM\<close> or \<^verbatim>\<open>ACTION\<close> context
  that resolves to a system-like: if the system-like already owns a generates-block the
  evaluation fails with \<^verbatim>\<open>ONLY_ONE_GENERATES_BLOCK_ALLOWED\<close> and leaves the registry
  as it was; otherwise it succeeds, the system-like owns exactly one generates-block
  afterwards, and the blocks of every other system-like are as before.
\<close>

theorem C6_generates_at_most_one:
  "(\<exists>e r'. eval_system_generates_statement r package_id context_stack statement = Return e r'
      \<and> (\<forall>s. length (get_system_generates_ids r s) \<le> 1 \<longrightarrow>
               length (get_system_generates_ids r' s) \<le> 1))
   \<and> (context_stack \<noteq> []
        \<and> stype (last context_stack) \<in> {ECSACT_STATEMENT_SYSTEM, ECSACT_STATEMENT_ACTION}
        \<and> parameters statement = []
        \<and> find_by_statement_system_like r package_id (last context_stack) = Some sys_like_id
      \<longrightarrow>
        (get_system_generates_ids r sys_like_id \<noteq> [] \<longrightarrow>
           eval_system_generates_statement r package_id context_stack statement
           = Return (eval_error ECSACT_EVAL_ERR_ONLY_ONE_GENERATES_BLOCK_ALLOWED []) r)
        \<and> (get_system_generates_ids r sys_like_id = [] \<longrightarrow>
             (\<exists>r'. eval_system_generates_statement r package_id context_stack statement
                    = Return eval_ok r'
                  \<and> length (get_system_generates_ids r' sys_like_id) = 1
                  \<and> (\<forall>s. s \<noteq> sys_like_id \<longrightarrow>
                        get_system_generates_ids r' s = get_system_generates_ids r s))))"
proof (intro conjI impI)
  from generates_total [of r package_id context_stack statement]
  obtain e r' where
    ret: "eval_system_generates_statement r package_id context_stack statement = Return e r'"
    by blast
  with generates_invariant [OF ret]
  show "\<exists>e r'. eval_system_generates_statement r package_id context_stack statement
                = Return e r'
          \<and> (\<forall>s. length (get_system_generates_ids r s) \<le> 1 \<longrightarrow>
                   length (get_system_generates_ids r' s) \<le> 1)"
    by blast
next
  assume h: "context_stack \<noteq> []
        \<and> stype (last context_stack) \<in> {ECSACT_STATEMENT_SYSTEM, ECSACT_STATEMENT_ACTION}
        \<and> parameters statement = []
        \<and> find_by_statement_system_like r package_id (last context_stack) = Some sys_like_id"
    and "get_system_generates_ids r sys_like_id \<noteq> []"
  with generates_cases [of context_stack statement r package_id sys_like_id]
  show "eval_system_generates_statement r package_id context_stack statement
        = Return (eval_error ECSACT_EVAL_ERR_ONLY_ONE_GENERATES_BLOCK_ALLOWED []) r"
    by blast
next
  assume h: "context_stack \<noteq> []
        \<and> stype (last context_stack) \<in> {ECSACT_STATEMENT_SYSTEM, ECSACT_STATEMENT_ACTION}
        \<and> parameters statement = []
        \<and> find_by_statement_system_like r package_id (last context_stack) = Some sys_like_id"
    and "get_system_generates_ids r sys_like_id = []"
  with generates_cases [of context_stack statement r package_id sys_like_id]
  show "\<exists>r'. eval_system_generates_statement r package_id context_stack statement
              = Return eval_ok r'
            \<and> length (get_system_generates_ids r' sys_like_id) = 1
            \<and> (\<forall>s. s \<noteq> sys_like_id \<longrightarrow>
                  get_system_generates_ids r' s = get_system_generates_ids r s)"
    by blast
qed

theorem C6_generates_at_most_one_witness:
  "find_by_statement_system_like two_package_registry 1
     (last [\<lparr>data = system_statement ''Move'', parameters = []\<rparr>]) = Some 4
   \<and> get_system_generates_ids two_package_registry 4 = []
   \<and> (\<exists>r'. eval_system_generates_statement two_package_registry 1
              [\<lparr>data = system_statement ''Move'', parameters = []\<rparr>]
              \<lparr>data = system_generates_statement, parameters = []\<rparr> = Return eval_ok r'
            \<and> length (get_system_generates_ids r' 4) = 1)
   \<and> get_system_generates_ids (snd (ecsact_add_system_generates two_package_registry 4)) 4 \<noteq> []
   \<and> eval_system_generates_statement (snd (ecsact_add_system_generates two_package_registry 4)) 1
        [\<lparr>data = system_statement ''Move'', parameters = []\<rparr>]
        \<lparr>data = system_generates_statement, parameters = []\<rparr>
      = Return (eval_error ECSACT_EVAL_ERR_ONLY_ONE_GENERATES_BLOCK_ALLOWED [])
          (snd (ecsact_add_system_generates two_package_registry 4))"
proof -
  have a: "find_by_statement_system_like two_package_registry 1
             (last [\<lparr>data = system_statement ''Move'', parameters = []\<rparr>]) = Some 4"
    by (simp add: two_package_registry_def empty_registry_def find_by_name_system_def
          find_by_statement_system_like_def)
  have b: "find_by_statement_system_like
             (snd (ecsact_add_system_generates two_package_registry 4)) 1
             (last [\<lparr>data = system_statement ''Move'', parameters = []\<rparr>]) = Some 4"
    by (simp add: two_package_registry_def empty_registry_def find_by_name_system_def
          find_by_statement_system_like_def ecsact_add_system_generates_def)
  have c: "get_system_generates_ids two_package_registry 4 = []"
    by (simp add: two_package_registry_def empty_registry_def get_system_generates_ids_def)
  have d: "get_system_generates_ids (snd (ecsact_add_system_generates two_package_registry 4)) 4
           \<noteq> []"
    by (simp add: get_system_generates_ids_def ecsact_add_system_generates_def)
  show ?thesis
    using a b c d
      C6_generates_at_most_one [of two_package_registry 1
        "[\<lparr>data = system_statement ''Move'', parameters = []\<rparr>]"
        "\<lparr>data = system_generates_statement, parameters = []\<rparr>" 4]
      C6_generates_at_most_one [of "snd (ecsact_add_system_generates two_package_registry 4)" 1
        "[\<lparr>data = system_statement ''Move'', parameters = []\<rparr>]"
        "\<lparr>data = system_generates_statement, parameters = []\<rparr>" 4]
    by (auto simp add: stype_def)
qed

section \<open>The shared association logic\<close>

lemma inline_find_field:
  "find (\<lambda>field_id. f = ecsact_meta_field_name r c field_id) (get_field_ids r c)
   = find_field_by_name r c f"
  unfolding find_field_by_name_def by (rule find_cong) auto

lemma with_field_ids_loop_step_ok:
  "find_field_by_name r c f = Some fid \<Longrightarrow> assoc_field_type_ok (get_field_type r c fid) \<Longrightarrow>
   with_field_ids_loop r c (f # fs) acc = with_field_ids_loop r c fs (acc @ [fid])"
  by (simp add: inline_find_field assoc_field_type_ok_def split: ecsact_field_type.splits)

lemma with_field_ids_loop_step_unknown:
  "find_field_by_name r c f = None \<Longrightarrow>
   with_field_ids_loop r c (f # fs) acc
   = Inl (eval_error ECSACT_EVAL_ERR_UNKNOWN_FIELD_NAME f)"
  by (simp add: inline_find_field)

lemma with_field_ids_loop_step_type:
  "find_field_by_name r c f = Some fid \<Longrightarrow> \<not> assoc_field_type_ok (get_field_type r c fid) \<Longrightarrow>
   with_field_ids_loop r c (f # fs) acc
   = Inl (eval_error ECSACT_EVAL_ERR_INVALID_ASSOC_FIELD_TYPE f)"
  by (simp add: inline_find_field assoc_field_type_ok_def split: ecsact_field_type.splits)

lemma with_field_ids_loop_ok:
  "\<forall>f \<in> set fs. assoc_field_ok r c f \<Longrightarrow>
   \<exists>ids. with_field_ids_loop r c fs acc = Inr (acc @ ids)
        \<and> list_all2 (\<lambda>f fid. find_field_by_name r c f = Some fid) fs ids"
proof (induction fs arbitrary: acc)
  case Nil
  show ?case by simp
next
  case (Cons f fs)
  from Cons.prems obtain fid where fid: "find_field_by_name r c f = Some fid"
    and ty: "assoc_field_type_ok (get_field_type r c fid)"
    by (auto simp add: assoc_field_ok_def split: option.splits)
  from Cons.prems have "\<forall>g \<in> set fs. assoc_field_ok r c g" by simp
  from Cons.IH [OF this, of "acc @ [fid]"] obtain ids
    where ids: "with_field_ids_loop r c fs (acc @ [fid]) = Inr ((acc @ [fid]) @ ids)"
      and all2: "list_all2 (\<lambda>f fid. find_field_by_name r c f = Some fid) fs ids"
    by blast
  have "with_field_ids_loop r c (f # fs) acc = Inr (acc @ (fid # ids))"
    using with_field_ids_loop_step_ok [OF fid ty] ids by simp
  moreover have "list_all2 (\<lambda>f fid. find_field_by_name r c f = Some fid) (f # fs) (fid # ids)"
    using fid all2 by simp
  ultimately show ?case by blast
qed

lemma with_field_ids_loop_prefix_ok:
  "\<forall>g \<in> set pre. assoc_field_ok r c g \<Longrightarrow>
   \<exists>acc'. with_field_ids_loop r c (pre @ rest) acc = with_field_ids_loop r c rest acc'"
proof (induction pre arbitrary: acc)
  case Nil
  show ?case by auto
next
  case (Cons f pre)
  from Cons.prems obtain fid where fid: "find_field_by_name r c f = Some fid"
    and ty: "assoc_field_type_ok (get_field_type r c fid)"
    by (auto simp add: assoc_field_ok_def split: option.splits)
  from Cons.prems have "\<forall>g \<in> set pre. assoc_field_ok r c g" by simp
  from Cons.IH [OF this, of "acc @ [fid]"] with_field_ids_loop_step_ok [OF fid ty]
  show ?case by simp
qed

lemma with_field_ids_loop_Inr:
  "with_field_ids_loop r c fs acc = Inr ids \<Longrightarrow>
   (\<forall>f \<in> set fs. assoc_field_ok r c f) \<and> length ids = length acc + length fs"
proof (induction fs arbitrary: acc)
  case Nil
  then show ?case by simp
next
  case (Cons f fs)
  show ?case
  proof (cases "find_field_by_name r c f")
    case None
    with Cons.prems with_field_ids_loop_step_unknown [OF None] show ?thesis by simp
  next
    case (Some fid)
    show ?thesis
    proof (cases "assoc_field_type_ok (get_field_type r c fid)")
      case False
      with Cons.prems with_field_ids_loop_step_type [OF Some False] show ?thesis by simp
    next
      case True
      with Cons.prems with_field_ids_loop_step_ok [OF Some True]
      have "with_field_ids_loop r c fs (acc @ [fid]) = Inr ids" by simp
      from Cons.IH [OF this] Some True show ?thesis
        by (simp add: assoc_field_ok_def)
    qed
  qed
qed

lemma add_system_assoc_fields_assocs:
  "system_assocs (add_system_assoc_fields r s a fids) =
     (system_assocs r)
       (s := map (\<lambda>(i, x). if i = a then (i, x\<lparr>assoc_fields := assoc_fields x @ fids\<rparr>)
                             else (i, x))
               (system_assocs r s))"
proof (induction fids arbitrary: r)
  case Nil
  have "map (\<lambda>(i, x). if i = a then (i, x\<lparr>assoc_fields := assoc_fields x @ []\<rparr>) else (i, x))
          (system_assocs r s) = system_assocs r s"
    by (induction "system_assocs r s") (auto simp add: map_idI split: prod.splits)
  then show ?case by simp
next
  case (Cons fid fids)
  show ?case
    by (simp add: Cons.IH ecsact_add_system_assoc_field_def o_def split_def fun_eq_iff)
qed


lemma with_field_ids_loop_Inl:
  "with_field_ids_loop r c fs acc = Inl err \<Longrightarrow> code err \<noteq> ECSACT_EVAL_OK"
  by (induction fs arbitrary: acc)
    (auto simp add: code_eval_error split: option.splits ecsact_field_type.splits if_splits)

lemma common_empty:
  "eval_system_with_statement_data_common r s c []
   = (eval_error ECSACT_EVAL_ERR_UNEXPECTED_STATEMENT [], r)"
  by (simp add: eval_system_with_statement_data_common_def)

lemma common_unknown_field:
  assumes "\<forall>g \<in> set pre. assoc_field_ok r c g" and "find_field_by_name r c f = None"
  shows "eval_system_with_statement_data_common r s c (pre @ f # post)
         = (eval_error ECSACT_EVAL_ERR_UNKNOWN_FIELD_NAME f, r)"
proof -
  from with_field_ids_loop_prefix_ok [OF assms(1), of "f # post" "[]"]
  obtain acc' where "with_field_ids_loop r c (pre @ f # post) []
                     = with_field_ids_loop r c (f # post) acc'" by blast
  with with_field_ids_loop_step_unknown [OF assms(2), of post acc']
  show ?thesis by (simp add: eval_system_with_statement_data_common_def)
qed

lemma common_invalid_type:
  assumes "\<forall>g \<in> set pre. assoc_field_ok r c g" and "find_field_by_name r c f = Some fid"
    and "\<not> assoc_field_type_ok (get_field_type r c fid)"
  shows "eval_system_with_statement_data_common r s c (pre @ f # post)
         = (eval_error ECSACT_EVAL_ERR_INVALID_ASSOC_FIELD_TYPE f, r)"
proof -
  from with_field_ids_loop_prefix_ok [OF assms(1), of "f # post" "[]"]
  obtain acc' where "with_field_ids_loop r c (pre @ f # post) []
                     = with_field_ids_loop r c (f # post) acc'" by blast
  with with_field_ids_loop_step_type [OF assms(2,3), of post acc']
  show ?thesis by (simp add: eval_system_with_statement_data_common_def)
qed

lemma common_ok:
  assumes "fs \<noteq> []" and "\<forall>f \<in> set fs. assoc_field_ok r c f"
    and "next_id r \<notin> set (system_assoc_ids r s)"
  shows "\<exists>ids r'. eval_system_with_statement_data_common r s c fs = (eval_ok, r')
           \<and> list_all2 (\<lambda>f fid. find_field_by_name r c f = Some fid) fs ids
           \<and> system_assocs r' s = system_assocs r s @
               [(next_id r, \<lparr>assoc_component_id = c, assoc_fields = ids,
                              assoc_capabilities = []\<rparr>)]
           \<and> (\<forall>s'. s' \<noteq> s \<longrightarrow> system_assocs r' s' = system_assocs r s')"
proof -
  from with_field_ids_loop_ok [OF assms(2), of "[]"] obtain ids
    where loop: "with_field_ids_loop r c fs [] = Inr ids"
      and all2: "list_all2 (\<lambda>f fid. find_field_by_name r c f = Some fid) fs ids"
    by auto
  from all2 assms(1) have ne: "ids \<noteq> []" by (cases ids) auto
  from assms(3)
  have old: "map (\<lambda>(i, x). if i = next_id r
                             then (i, x\<lparr>assoc_fields := assoc_fields x @ ids\<rparr>) else (i, x))
               (system_assocs r s) = system_assocs r s"
    by (intro map_idI) (force simp add: system_assoc_ids_def)
  let ?r' = "add_system_assoc_fields (snd (ecsact_add_system_assoc r s c)) s (next_id r) ids"
  have res: "eval_system_with_statement_data_common r s c fs = (eval_ok, ?r')"
    using loop ne
    by (simp add: eval_system_with_statement_data_common_def ecsact_add_system_assoc_def)
  have here: "system_assocs ?r' s = system_assocs r s @
               [(next_id r, \<lparr>assoc_component_id = c, assoc_fields = ids,
                              assoc_capabilities = []\<rparr>)]"
    using old by (simp add: add_system_assoc_fields_assocs ecsact_add_system_assoc_def)
  have there: "\<forall>s'. s' \<noteq> s \<longrightarrow> system_assocs ?r' s' = system_assocs r s'"
    by (simp add: add_system_assoc_fields_assocs ecsact_add_system_assoc_def)
  from res all2 here there show ?thesis by blast
qed

lemma common_ok_only:
  assumes "code (fst (eval_system_with_statement_data_common r s c fs)) = ECSACT_EVAL_OK"
  shows "fs \<noteq> [] \<and> (\<forall>f \<in> set fs. assoc_field_ok r c f)"
proof (cases "with_field_ids_loop r c fs []")
  case (Inl err)
  from with_field_ids_loop_Inl [OF Inl] have "code err \<noteq> ECSACT_EVAL_OK" .
  with assms Inl show ?thesis
    by (simp add: eval_system_with_statement_data_common_def)
next
  case (Inr ids)
  from with_field_ids_loop_Inr [OF Inr] assms Inr show ?thesis
    by (auto simp add: eval_system_with_statement_data_common_def code_eval_error
          split: if_splits)
qed


lemma common_failure_unchanged:
  "code (fst (eval_system_with_statement_data_common r s c fs)) \<noteq> ECSACT_EVAL_OK \<Longrightarrow>
   snd (eval_system_with_statement_data_common r s c fs) = r"
  by (auto simp add: eval_system_with_statement_data_common_def code_eval_ok
        split: sum.splits if_splits prod.splits)

lemma common_invariant:
  assumes "\<forall>a \<in> set (system_assocs r s'). assoc_fields (snd a) \<noteq> []"
  shows "\<forall>a \<in> set (system_assocs (snd (eval_system_with_statement_data_common r s c fs)) s').
           assoc_fields (snd a) \<noteq> []"
proof (cases "with_field_ids_loop r c fs []")
  case (Inl err)
  with assms show ?thesis by (simp add: eval_system_with_statement_data_common_def)
next
  case (Inr ids)
  show ?thesis
  proof (cases "ids = []")
    case True
    with Inr assms show ?thesis by (simp add: eval_system_with_statement_data_common_def)
  next
    case False
    with Inr assms show ?thesis
      by (auto simp add: eval_system_with_statement_data_common_def
            add_system_assoc_fields_assocs ecsact_add_system_assoc_def split: if_splits)
  qed
qed

text \<open>
  Claim C3: for every system-like, component-like and list of field names, the shared
  association logic returns \<^verbatim>\<open>UNEXPECTED_STATEMENT\<close> on the empty list; it returns
  \<^verbatim>\<open>UNKNOWN_FIELD_NAME\<close> when the first field name that fails does not resolve on
  the component-like, and \<^verbatim>\<open>INVALID_ASSOC_FIELD_TYPE\<close> when it resolves to a field
  whose type is neither the builtin entity type nor a field index; in every failing case
  the registry is left as it was.  When the list is not empty and every name resolves
  and passes the type check, and only then, it returns OK and the system-like has one
  new association, of the component-like, whose fields are the resolved field ids in
  the order of the names.  If every association had a non-empty field list before, every
  association has one afterwards.
\<close>

theorem C3_system_with_common:
  "eval_system_with_statement_data_common r s c []
     = (eval_error ECSACT_EVAL_ERR_UNEXPECTED_STATEMENT [], r)
   \<and> ((\<forall>g \<in> set pre. assoc_field_ok r c g) \<and> find_field_by_name r c f = None \<longrightarrow>
        eval_system_with_statement_data_common r s c (pre @ f # post)
        = (eval_error ECSACT_EVAL_ERR_UNKNOWN_FIELD_NAME f, r))
   \<and> ((\<forall>g \<in> set pre. assoc_field_ok r c g) \<and> find_field_by_name r c f = Some fid
        \<and> \<not> assoc_field_type_ok (get_field_type r c fid) \<longrightarrow>
        eval_system_with_statement_data_common r s c (pre @ f # post)
        = (eval_error ECSACT_EVAL_ERR_INVALID_ASSOC_FIELD_TYPE f, r))
   \<and> (fs \<noteq> [] \<and> (\<forall>g \<in> set fs. assoc_field_ok r c g)
        \<and> next_id r \<notin> set (system_assoc_ids r s) \<longrightarrow>
        (\<exists>ids r'. eval_system_with_statement_data_common r s c fs = (eval_ok, r')
           \<and> list_all2 (\<lambda>g gid. find_field_by_name r c g = Some gid) fs ids
           \<and> system_assocs r' s = system_assocs r s @
               [(next_id r, \<lparr>assoc_component_id = c, assoc_fields = ids,
                              assoc_capabilities = []\<rparr>)]
           \<and> (\<forall>s'. s' \<noteq> s \<longrightarrow> system_assocs r' s' = system_assocs r s')))
   \<and> (code (fst (eval_system_with_statement_data_common r s c fs)) = ECSACT_EVAL_OK \<longrightarrow>
        fs \<noteq> [] \<and> (\<forall>g \<in> set fs. assoc_field_ok r c g))
   \<and> (code (fst (eval_system_with_statement_data_common r s c fs)) \<noteq> ECSACT_EVAL_OK \<longrightarrow>
        snd (eval_system_with_statement_data_common r s c fs) = r)
   \<and> ((\<forall>a \<in> set (system_assocs r other). assoc_fields (snd a) \<noteq> []) \<longrightarrow>
        (\<forall>a \<in> set (system_assocs (snd (eval_system_with_statement_data_common r s c fs)) other).
            assoc_fields (snd a) \<noteq> []))"
  using common_empty [of r s c]
    common_unknown_field [of pre r c f s post]
    common_invalid_type [of pre r c f fid s post]
    common_ok [of fs r c s]
    common_ok_only [of r s c fs]
    common_failure_unchanged [of r s c fs]
    common_invariant [of r other s c fs]
  by blast

theorem C3_system_with_common_witness:
  "assoc_field_ok fields_registry 2 ''target''
   \<and> find_field_by_name fields_registry 2 ''nope'' = None
   \<and> eval_system_with_statement_data_common fields_registry 3 2 [''target'', ''nope'']
      = (eval_error ECSACT_EVAL_ERR_UNKNOWN_FIELD_NAME ''nope'', fields_registry)
   \<and> find_field_by_name fields_registry 2 ''x'' = Some 1
   \<and> \<not> assoc_field_type_ok (get_field_type fields_registry 2 1)
   \<and> eval_system_with_statement_data_common fields_registry 3 2 [''target'', ''x'', ''link'']
      = (eval_error ECSACT_EVAL_ERR_INVALID_ASSOC_FIELD_TYPE ''x'', fields_registry)
   \<and> assoc_field_ok fields_registry 2 ''link''
   \<and> next_id fields_registry \<notin> set (system_assoc_ids fields_registry 3)
   \<and> (\<exists>r'. eval_system_with_statement_data_common fields_registry 3 2 [''target'', ''link'']
              = (eval_ok, r')
            \<and> system_assocs r' 3 =
                [(8, \<lparr>assoc_component_id = 2, assoc_fields = [0, 2],
                       assoc_capabilities = []\<rparr>)])"
proof -
  have ok: "assoc_field_ok fields_registry 2 ''target''" "assoc_field_ok fields_registry 2 ''link''"
    by (simp_all add: assoc_field_ok_def assoc_field_type_ok_def find_field_by_name_def
          get_field_ids_def ecsact_meta_field_name_def get_field_type_def fields_registry_def)
  have nope: "find_field_by_name fields_registry 2 ''nope'' = None"
    by (simp add: find_field_by_name_def get_field_ids_def ecsact_meta_field_name_def
          fields_registry_def)
  have x: "find_field_by_name fields_registry 2 ''x'' = Some 1"
    by (simp add: find_field_by_name_def get_field_ids_def ecsact_meta_field_name_def
          fields_registry_def)
  have tgt: "find_field_by_name fields_registry 2 ''target'' = Some 0"
    "find_field_by_name fields_registry 2 ''link'' = Some 2"
    by (simp_all add: find_field_by_name_def get_field_ids_def ecsact_meta_field_name_def
          fields_registry_def)
  have xty: "\<not> assoc_field_type_ok (get_field_type fields_registry 2 1)"
    by (simp add: assoc_field_type_ok_def get_field_type_def fields_registry_def)
  have fresh: "next_id fields_registry \<notin> set (system_assoc_ids fields_registry 3)"
    "system_assocs fields_registry 3 = []" "next_id fields_registry = 8"
    by (simp_all add: system_assoc_ids_def fields_registry_def two_package_registry_def
          empty_registry_def)
  from C3_system_with_common
    [where r = fields_registry and s = 3 and c = 2 and pre = "[''target'']" and f = "''nope''"
       and post = "[]" and fs = "[''target'', ''link'']" and fid = 0 and other = 3]
    ok nope fresh
  have a: "eval_system_with_statement_data_common fields_registry 3 2 [''target'', ''nope'']
           = (eval_error ECSACT_EVAL_ERR_UNKNOWN_FIELD_NAME ''nope'', fields_registry)"
    and c: "\<exists>ids r'. eval_system_with_statement_data_common fields_registry 3 2
                        [''target'', ''link''] = (eval_ok, r')
              \<and> list_all2 (\<lambda>g gid. find_field_by_name fields_registry 2 g = Some gid)
                   [''target'', ''link''] ids
              \<and> system_assocs r' 3 =
                  [(8, \<lparr>assoc_component_id = 2, assoc_fields = ids,
                         assoc_capabilities = []\<rparr>)]"
    by auto
  from C3_system_with_common
    [where r = fields_registry and s = 3 and c = 2 and pre = "[''target'']" and f = "''x''"
       and fid = 1 and post = "[''link'']" and fs = "[]" and other = 3]
    ok x xty
  have b: "eval_system_with_statement_data_common fields_registry 3 2
             [''target'', ''x'', ''link'']
           = (eval_error ECSACT_EVAL_ERR_INVALID_ASSOC_FIELD_TYPE ''x'', fields_registry)"
    by simp
  from c tgt
  have c': "\<exists>r'. eval_system_with_statement_data_common fields_registry 3 2
                    [''target'', ''link''] = (eval_ok, r')
              \<and> system_assocs r' 3 =
                  [(8, \<lparr>assoc_component_id = 2, assoc_fields = [0, 2],
                         assoc_capabilities = []\<rparr>)]"
    by (auto simp add: list_all2_Cons1)
  from a b c' ok nope x xty fresh show ?thesis by simp
qed

section \<open>Component statements\<close>







section \<open>Notify statements and capabilities\<close>

lemma system_component_context_top_level:
  assumes "data c = system_statement sn \<or> data c = action_statement sn"
    and "find_by_statement_system_like r package_id c = Some sys_like_id"
  shows "system_component_context ndebug r package_id context_stack c with_list
         = Inr (sys_like_id, None)"
  using assms by (auto simp add: system_component_context_def)

lemma system_component_after_context:
  assumes "data statement = system_component_statement capability comp_name with_list"
    and "context_stack \<noteq> []"
    and "stype (last context_stack) \<in>
           {ECSACT_STATEMENT_SYSTEM, ECSACT_STATEMENT_ACTION,
            ECSACT_STATEMENT_SYSTEM_COMPONENT, ECSACT_STATEMENT_SYSTEM_WITH}"
    and "parameters statement = []"
    and "find_by_name_component_like r package_id comp_name = Some comp_like_id"
    and "system_component_context ndebug r package_id context_stack (last context_stack)
           with_list = Inr (sys_like_id, assoc_id)"
  shows "eval_system_component_statement ndebug r package_id context_stack statement
         = system_component_capability r sys_like_id assoc_id comp_like_id capability
             comp_name with_list"
proof -
  from assms(2,3)
  have ctx: "expect_context context_stack
               [ECSACT_STATEMENT_SYSTEM, ECSACT_STATEMENT_ACTION,
                ECSACT_STATEMENT_SYSTEM_COMPONENT, ECSACT_STATEMENT_SYSTEM_WITH]
             = (Some (last context_stack), eval_ok)"
    by (intro expect_context_allowed) auto
  show ?thesis
    using assms(1,5,6) disallow_statement_params_none [OF assms(4)]
    by (simp add: eval_system_component_statement_def ctx code_eval_ok)
qed

lemma system_component_after_notify:
  assumes "data statement = system_component_statement capability comp_name with_list"
    and "context_stack \<noteq> []"
    and "stype (last context_stack) \<in>
           {ECSACT_STATEMENT_SYSTEM, ECSACT_STATEMENT_ACTION,
            ECSACT_STATEMENT_SYSTEM_COMPONENT, ECSACT_STATEMENT_SYSTEM_WITH}"
    and "parameters statement = []"
    and "find_by_name_component_like r package_id comp_name = Some comp_like_id"
    and "system_component_context ndebug r package_id context_stack (last context_stack)
           with_list = Inr (sys_like_id, assoc_id)"
    and "0 < system_notify_settings_count r sys_like_id"
  shows "eval_system_component_statement ndebug r package_id context_stack statement
         = Return (eval_error ECSACT_EVAL_ERR_NOTIFY_BEFORE_SYSTEM_COMPONENT []) r"
  using system_component_after_context [OF assms(1-6)] assms(7)
  by (simp add: system_component_capability_def)

lemma system_component_after_notify_top_level:
  assumes "data statement = system_component_statement capability comp_name with_list"
    and "context_stack \<noteq> []"
    and "data (last context_stack) = system_statement sn
         \<or> data (last context_stack) = action_statement sn"
    and "parameters statement = []"
    and "find_by_name_component_like r package_id comp_name = Some comp_like_id"
    and "find_by_statement_system_like r package_id (last context_stack) = Some sys_like_id"
    and "system_notify_settings r sys_like_id \<noteq> []"
  shows "eval_system_component_statement ndebug r package_id context_stack statement
         = Return (eval_error ECSACT_EVAL_ERR_NOTIFY_BEFORE_SYSTEM_COMPONENT []) r"
proof -
  from assms(3)
  have ty: "stype (last context_stack) \<in>
           {ECSACT_STATEMENT_SYSTEM, ECSACT_STATEMENT_ACTION,
            ECSACT_STATEMENT_SYSTEM_COMPONENT, ECSACT_STATEMENT_SYSTEM_WITH}"
    by (auto simp add: stype_def)
  from assms(7) have cnt: "0 < system_notify_settings_count r sys_like_id"
    by (simp add: system_notify_settings_count_def)
  from system_component_after_notify
    [OF assms(1,2) ty assms(4,5) system_component_context_top_level [OF assms(3,6)] cnt]
  show ?thesis .
qed

lemma set_notify_settings_loop_settings:
  "map_of (system_notify_settings (set_notify_settings_loop r sl setting caps) sl)
   = (\<lambda>c. if c \<in> fst ` set caps then Some setting
           else map_of (system_notify_settings r sl) c)"
proof (induction caps arbitrary: r)
  case Nil
  show ?case by simp
next
  case (Cons entry caps)
  show ?case
    by (auto simp add: Cons.IH ecsact_set_system_notify_component_setting_def update_conv'
          fun_eq_iff)
qed

lemma set_notify_settings_loop_keys:
  "fst ` set (system_notify_settings (set_notify_settings_loop r sl setting caps) sl)
   = fst ` set (system_notify_settings r sl) \<union> fst ` set caps"
proof (induction caps arbitrary: r)
  case Nil
  show ?case by simp
next
  case (Cons entry caps)
  show ?case
    by (auto simp add: Cons.IH ecsact_set_system_notify_component_setting_def dom_update)
qed

lemma set_notify_settings_loop_capabilities:
  "system_capabilities (set_notify_settings_loop r sl setting caps) = system_capabilities r"
  by (induction caps arbitrary: r)
    (simp_all add: ecsact_set_system_notify_component_setting_def)

lemma notify_setting_of_valid_name:
  assumes "(setting_name, setting) \<in> set [(''always'', ECSACT_SYS_NOTIFY_ALWAYS),
                                            (''oninit'', ECSACT_SYS_NOTIFY_ONINIT),
                                            (''onupdate'', ECSACT_SYS_NOTIFY_ONUPDATE),
                                            (''onchange'', ECSACT_SYS_NOTIFY_ONCHANGE),
                                            (''onremove'', ECSACT_SYS_NOTIFY_ONREMOVE)]"
  shows "get_notify_setting_from_string setting_name = Some setting \<and> setting_name \<noteq> []"
  using assms by (auto simp add: get_notify_setting_from_string_def)

lemma notify_setting_of_invalid_name:
  assumes "setting_name \<notin> {''always'', ''oninit'', ''onupdate'', ''onchange'', ''onremove''}"
  shows "get_notify_setting_from_string setting_name = None"
  using assms by (simp add: get_notify_setting_from_string_def)

lemma notify_invalid_setting:
  assumes "data statement = system_notify_statement setting_name"
    and "context_stack \<noteq> []"
    and "stype (last context_stack) \<in> {ECSACT_STATEMENT_SYSTEM, ECSACT_STATEMENT_ACTION}"
    and "parameters statement = []"
    and "find_by_statement_system_like r package_id (last context_stack) = Some sys_like_id"
    and "system_notify_settings r sys_like_id = []"
    and "setting_name \<noteq> []"
    and "setting_name \<notin> {''always'', ''oninit'', ''onupdate'', ''onchange'', ''onremove''}"
  shows "eval_system_notify_statement r package_id context_stack statement
         = Return (eval_error ECSACT_EVAL_ERR_INVALID_NOTIFY_SETTING setting_name) r"
proof -
  from assms(2,3)
  have ctx: "expect_context context_stack [ECSACT_STATEMENT_SYSTEM, ECSACT_STATEMENT_ACTION]
             = (Some (last context_stack), eval_ok)"
    by (intro expect_context_allowed) auto
  show ?thesis
    using assms(1,5,6,7) notify_setting_of_invalid_name [OF assms(8)]
      disallow_statement_params_none [OF assms(4)]
    by (simp add: eval_system_notify_statement_def ctx code_eval_ok
          system_notify_settings_count_def)
qed

lemma notify_after_capabilities:
  assumes "data statement = system_notify_statement setting_name"
    and "context_stack \<noteq> []"
    and "stype (last context_stack) \<in> {ECSACT_STATEMENT_SYSTEM, ECSACT_STATEMENT_ACTION}"
    and "parameters statement = []"
    and "find_by_statement_system_like r package_id (last context_stack) = Some sys_like_id"
    and "system_notify_settings r sys_like_id = []"
    and "setting_name \<noteq> []"
    and "get_notify_setting_from_string setting_name = Some setting"
  shows "\<exists>r'. eval_system_notify_statement r package_id context_stack statement
                = Return eval_ok r'
           \<and> (\<forall>c \<in> fst ` set (system_capabilities r sys_like_id).
                 map_of (system_notify_settings r' sys_like_id) c = Some setting)
           \<and> fst ` set (system_notify_settings r' sys_like_id)
               = fst ` set (system_capabilities r sys_like_id)
           \<and> system_capabilities r' = system_capabilities r"
proof -
  from assms(2,3)
  have ctx: "expect_context context_stack [ECSACT_STATEMENT_SYSTEM, ECSACT_STATEMENT_ACTION]
             = (Some (last context_stack), eval_ok)"
    by (intro expect_context_allowed) auto
  let ?r' = "set_notify_settings_loop r sys_like_id setting (system_capabilities r sys_like_id)"
  have "eval_system_notify_statement r package_id context_stack statement = Return eval_ok ?r'"
    using assms(1,5,6,7,8) disallow_statement_params_none [OF assms(4)]
    by (simp add: eval_system_notify_statement_def ctx code_eval_ok
          system_notify_settings_count_def)
  moreover have "\<forall>c \<in> fst ` set (system_capabilities r sys_like_id).
                   map_of (system_notify_settings ?r' sys_like_id) c = Some setting"
    by (simp add: set_notify_settings_loop_settings)
  moreover have "fst ` set (system_notify_settings ?r' sys_like_id)
                 = fst ` set (system_capabilities r sys_like_id)"
    using assms(6) by (simp add: set_notify_settings_loop_keys)
  moreover have "system_capabilities ?r' = system_capabilities r"
    by (rule set_notify_settings_loop_capabilities)
  ultimately show ?thesis by blast
qed

text \<open>
  Claim C2: a \<^verbatim>\<open>SYSTEM_COMPONENT\<close> statement without parameters whose component-like
  resolves and whose context yields the enclosing system-like fails with
  \<^verbatim>\<open>NOTIFY_BEFORE_SYSTEM_COMPONENT\<close>, leaving the registry as it was, when that
  system-like already has a notify setting; in particular directly under the
  \<^verbatim>\<open>SYSTEM\<close> or \<^verbatim>\<open>ACTION\<close> statement.  Conversely a \<^verbatim>\<open>SYSTEM_NOTIFY\<close>
  statement without parameters under a \<^verbatim>\<open>SYSTEM\<close> or \<^verbatim>\<open>ACTION\<close> context
  whose system-like has no notify setting yet succeeds, however many capabilities were
  declared, when its setting name is one of \<^verbatim>\<open>always\<close>, \<^verbatim>\<open>oninit\<close>,
  \<^verbatim>\<open>onupdate\<close>, \<^verbatim>\<open>onchange\<close> and \<^verbatim>\<open>onremove\<close>; afterwards the notify
  settings of the system-like map exactly the components of its capability map to the
  setting that the name denotes (\<^verbatim>\<open>ALWAYS\<close>, \<^verbatim>\<open>ONINIT\<close>, \<^verbatim>\<open>ONUPDATE\<close>,
  \<^verbatim>\<open>ONCHANGE\<close>, \<^verbatim>\<open>ONREMOVE\<close> in that order).  Any other non-empty setting
  name fails with \<^verbatim>\<open>INVALID_NOTIFY_SETTING\<close> and leaves the registry as it was.
\<close>

theorem C2_notify_and_capability_order:
  "(data statement = system_component_statement capability comp_name with_list
      \<and> context_stack \<noteq> []
      \<and> stype (last context_stack) \<in>
           {ECSACT_STATEMENT_SYSTEM, ECSACT_STATEMENT_ACTION,
            ECSACT_STATEMENT_SYSTEM_COMPONENT, ECSACT_STATEMENT_SYSTEM_WITH}
      \<and> parameters statement = []
      \<and> find_by_name_component_like r package_id comp_name = Some comp_like_id
      \<and> system_component_context ndebug r package_id context_stack (last context_stack)
           with_list = Inr (sys_like_id, assoc_id)
      \<and> 0 < system_notify_settings_count r sys_like_id
    \<longrightarrow> eval_system_component_statement ndebug r package_id context_stack statement
        = Return (eval_error ECSACT_EVAL_ERR_NOTIFY_BEFORE_SYSTEM_COMPONENT []) r)
   \<and> (data statement = system_component_statement capability comp_name with_list
      \<and> context_stack \<noteq> []
      \<and> (data (last context_stack) = system_statement sn
           \<or> data (last context_stack) = action_statement sn)
      \<and> parameters statement = []
      \<and> find_by_name_component_like r package_id comp_name = Some comp_like_id
      \<and> find_by_statement_system_like r package_id (last context_stack) = Some sys_like_id
      \<and> system_notify_settings r sys_like_id \<noteq> []
    \<longrightarrow> eval_system_component_statement ndebug r package_id context_stack statement
        = Return (eval_error ECSACT_EVAL_ERR_NOTIFY_BEFORE_SYSTEM_COMPONENT []) r)
   \<and> (data notify = system_notify_statement setting_name
      \<and> context_stack \<noteq> []
      \<and> stype (last context_stack) \<in> {ECSACT_STATEMENT_SYSTEM, ECSACT_STATEMENT_ACTION}
      \<and> parameters notify = []
      \<and> find_by_statement_system_like r package_id (last context_stack) = Some sys_like_id
      \<and> system_notify_settings r sys_like_id = []
      \<and> (setting_name, setting) \<in> set [(''always'', ECSACT_SYS_NOTIFY_ALWAYS),
            (''oninit'', ECSACT_SYS_NOTIFY_ONINIT),
            (''onupdate'', ECSACT_SYS_NOTIFY_ONUPDATE),
            (''onchange'', ECSACT_SYS_NOTIFY_ONCHANGE),
            (''onremove'', ECSACT_SYS_NOTIFY_ONREMOVE)]
    \<longrightarrow> (\<exists>r'. eval_system_notify_statement r package_id context_stack notify
                = Return eval_ok r'
           \<and> (\<forall>c \<in> fst ` set (system_capabilities r sys_like_id).
                 map_of (system_notify_settings r' sys_like_id) c = Some setting)
           \<and> fst ` set (system_notify_settings r' sys_like_id)
               = fst ` set (system_capabilities r sys_like_id)
           \<and> system_capabilities r' = system_capabilities r))
   \<and> (data notify = system_notify_statement setting_name
      \<and> context_stack \<noteq> []
      \<and> stype (last context_stack) \<in> {ECSACT_STATEMENT_SYSTEM, ECSACT_STATEMENT_ACTION}
      \<and> parameters notify = []
      \<and> find_by_statement_system_like r package_id (last context_stack) = Some sys_like_id
      \<and> system_notify_settings r sys_like_id = []
      \<and> setting_name \<noteq> []
      \<and> setting_name \<notin> {''always'', ''oninit'', ''onupdate'', ''onchange'', ''onremove''}
    \<longrightarrow> eval_system_notify_statement r package_id context_stack notify
        = Return (eval_error ECSACT_EVAL_ERR_INVALID_NOTIFY_SETTING setting_name) r)"
proof (intro conjI impI)
  assume "data statement = system_component_statement capability comp_name with_list
      \<and> context_stack \<noteq> []
      \<and> stype (last context_stack) \<in>
           {ECSACT_STATEMENT_SYSTEM, ECSACT_STATEMENT_ACTION,
            ECSACT_STATEMENT_SYSTEM_COMPONENT, ECSACT_STATEMENT_SYSTEM_WITH}
      \<and> parameters statement = []
      \<and> find_by_name_component_like r package_id comp_name = Some comp_like_id
      \<and> system_component_context ndebug r package_id context_stack (last context_stack)
           with_list = Inr (sys_like_id, assoc_id)
      \<and> 0 < system_notify_settings_count r sys_like_id"
  then show "eval_system_component_statement ndebug r package_id context_stack statement
        = Return (eval_error ECSACT_EVAL_ERR_NOTIFY_BEFORE_SYSTEM_COMPONENT []) r"
    using system_component_after_notify by blast
next
  assume "data statement = system_component_statement capability comp_name with_list
      \<and> context_stack \<noteq> []
      \<and> (data (last context_stack) = system_statement sn
           \<or> data (last context_stack) = action_statement sn)
      \<and> parameters statement = []
      \<and> find_by_name_component_like r package_id comp_name = Some comp_like_id
      \<and> find_by_statement_system_like r package_id (last context_stack) = Some sys_like_id
      \<and> system_notify_settings r sys_like_id \<noteq> []"
  then show "eval_system_component_statement ndebug r package_id context_stack statement
        = Return (eval_error ECSACT_EVAL_ERR_NOTIFY_BEFORE_SYSTEM_COMPONENT []) r"
    using system_component_after_notify_top_level
      [where statement = statement and context_stack = context_stack and sn = sn
         and r = r and package_id = package_id and sys_like_id = sys_like_id]
    by blast
next
  assume "data notify = system_notify_statement setting_name
      \<and> context_stack \<noteq> []
      \<and> stype (last context_stack) \<in> {ECSACT_STATEMENT_SYSTEM, ECSACT_STATEMENT_ACTION}
      \<and> parameters notify = []
      \<and> find_by_statement_system_like r package_id (last context_stack) = Some sys_like_id
      \<and> system_notify_settings r sys_like_id = []
      \<and> (setting_name, setting) \<in> set [(''always'', ECSACT_SYS_NOTIFY_ALWAYS),
            (''oninit'', ECSACT_SYS_NOTIFY_ONINIT),
            (''onupdate'', ECSACT_SYS_NOTIFY_ONUPDATE),
            (''onchange'', ECSACT_SYS_NOTIFY_ONCHANGE),
            (''onremove'', ECSACT_SYS_NOTIFY_ONREMOVE)]"
  then show "\<exists>r'. eval_system_notify_statement r package_id context_stack notify
                = Return eval_ok r'
           \<and> (\<forall>c \<in> fst ` set (system_capabilities r sys_like_id).
                 map_of (system_notify_settings r' sys_like_id) c = Some setting)
           \<and> fst ` set (system_notify_settings r' sys_like_id)
               = fst ` set (system_capabilities r sys_like_id)
           \<and> system_capabilities r' = system_capabilities r"
    by (elim conjE)
      (rule notify_after_capabilities
         [where setting_name = setting_name,
          OF _ _ _ _ _ _ conjunct2 [OF notify_setting_of_valid_name]
             conjunct1 [OF notify_setting_of_valid_name]],
       assumption+)
next
  assume "data notify = system_notify_statement setting_name
      \<and> context_stack \<noteq> []
      \<and> stype (last context_stack) \<in> {ECSACT_STATEMENT_SYSTEM, ECSACT_STATEMENT_ACTION}
      \<and> parameters notify = []
      \<and> find_by_statement_system_like r package_id (last context_stack) = Some sys_like_id
      \<and> system_notify_settings r sys_like_id = []
      \<and> setting_name \<noteq> []
      \<and> setting_name \<notin> {''always'', ''oninit'', ''onupdate'', ''onchange'', ''onremove''}"
  then show "eval_system_notify_statement r package_id context_stack notify
        = Return (eval_error ECSACT_EVAL_ERR_INVALID_NOTIFY_SETTING setting_name) r"
    by (elim conjE)
      (rule notify_invalid_setting [where sys_like_id = sys_like_id], assumption+)
qed

theorem C2_notify_and_capability_order_witness:
  "find_by_name_component_like notified_registry 1 ''lib.Position'' = Some 2
   \<and> find_by_statement_system_like notified_registry 1
       (last [\<lparr>data = system_statement ''Move'', parameters = []\<rparr>]) = Some 4
   \<and> system_notify_settings notified_registry 4 \<noteq> []
   \<and> eval_system_component_statement False notified_registry 1
        [\<lparr>data = system_statement ''Move'', parameters = []\<rparr>]
        \<lparr>data = system_component_statement 1 ''lib.Position'' [], parameters = []\<rparr>
      = Return (eval_error ECSACT_EVAL_ERR_NOTIFY_BEFORE_SYSTEM_COMPONENT []) notified_registry
   \<and> find_by_statement_system_like capability_registry 1
       (last [\<lparr>data = system_statement ''Move'', parameters = []\<rparr>]) = Some 4
   \<and> system_notify_settings capability_registry 4 = []
   \<and> system_capabilities capability_registry 4 = [(2, 3)]
   \<and> (\<exists>r'. eval_system_notify_statement capability_registry 1
               [\<lparr>data = system_statement ''Move'', parameters = []\<rparr>]
               \<lparr>data = system_notify_statement ''always'', parameters = []\<rparr>
             = Return eval_ok r'
           \<and> map_of (system_notify_settings r' 4) 2 = Some ECSACT_SYS_NOTIFY_ALWAYS)
   \<and> (\<exists>r'. eval_system_notify_statement capability_registry 1
               [\<lparr>data = system_statement ''Move'', parameters = []\<rparr>]
               \<lparr>data = system_notify_statement ''onchange'', parameters = []\<rparr>
             = Return eval_ok r'
           \<and> map_of (system_notify_settings r' 4) 2 = Some ECSACT_SYS_NOTIFY_ONCHANGE)
   \<and> eval_system_notify_statement capability_registry 1
        [\<lparr>data = system_statement ''Move'', parameters = []\<rparr>]
        \<lparr>data = system_notify_statement ''bogus'', parameters = []\<rparr>
      = Return (eval_error ECSACT_EVAL_ERR_INVALID_NOTIFY_SETTING ''bogus'')
          capability_registry"
proof -
  have a: "find_by_name_component_like notified_registry 1 ''lib.Position'' = Some 2"
    by (simp add: find_by_name_component_like_def find_by_name_component_def
          notified_registry_def capability_registry_def two_package_registry_def
          empty_registry_def ecsact_set_system_capability_def
          ecsact_set_system_notify_component_setting_def)
  have b: "find_by_statement_system_like notified_registry 1
             (last [\<lparr>data = system_statement ''Move'', parameters = []\<rparr>]) = Some 4"
    "find_by_statement_system_like capability_registry 1
       (last [\<lparr>data = system_statement ''Move'', parameters = []\<rparr>]) = Some 4"
    by (simp_all add: find_by_statement_system_like_def find_by_name_system_def
          notified_registry_def capability_registry_def two_package_registry_def
          empty_registry_def ecsact_set_system_capability_def
          ecsact_set_system_notify_component_setting_def)
  have c: "system_notify_settings notified_registry 4 \<noteq> []"
    "system_notify_settings capability_registry 4 = []"
    "system_capabilities capability_registry 4 = [(2, 3)]"
    by (simp_all add: notified_registry_def capability_registry_def two_package_registry_def
          empty_registry_def ecsact_set_system_capability_def
          ecsact_set_system_notify_component_setting_def)
  from C2_notify_and_capability_order
    [where statement = "\<lparr>data = system_component_statement 1 ''lib.Position'' [],
                          parameters = []\<rparr>"
       and capability = 1 and comp_name = "''lib.Position''" and with_list = "[]"
       and context_stack = "[\<lparr>data = system_statement ''Move'', parameters = []\<rparr>]"
       and sn = "''Move''" and r = notified_registry and package_id = 1
       and comp_like_id = 2 and sys_like_id = 4 and ndebug = False and assoc_id = None
       and notify = "\<lparr>data = system_notify_statement ''always'', parameters = []\<rparr>"
       and setting_name = "''always''" and setting = ECSACT_SYS_NOTIFY_ALWAYS]
    a b(1) c(1)
  have e: "eval_system_component_statement False notified_registry 1
        [\<lparr>data = system_statement ''Move'', parameters = []\<rparr>]
        \<lparr>data = system_component_statement 1 ''lib.Position'' [], parameters = []\<rparr>
      = Return (eval_error ECSACT_EVAL_ERR_NOTIFY_BEFORE_SYSTEM_COMPONENT []) notified_registry"
    by simp
  from C2_notify_and_capability_order
    [where notify = "\<lparr>data = system_notify_statement ''always'', parameters = []\<rparr>"
       and setting_name = "''always''" and setting = ECSACT_SYS_NOTIFY_ALWAYS
       and context_stack = "[\<lparr>data = system_statement ''Move'', parameters = []\<rparr>]"
       and r = capability_registry and package_id = 1 and sys_like_id = 4
       and statement = "\<lparr>data = system_component_statement 1 ''lib.Position'' [],
                          parameters = []\<rparr>"
       and capability = 1 and comp_name = "''lib.Position''" and with_list = "[]"
       and sn = "''Move''" and comp_like_id = 2 and ndebug = False and assoc_id = None]
    b(2) c(2,3)
  have f: "\<exists>r'. eval_system_notify_statement capability_registry 1
               [\<lparr>data = system_statement ''Move'', parameters = []\<rparr>]
               \<lparr>data = system_notify_statement ''always'', parameters = []\<rparr>
             = Return eval_ok r'
           \<and> map_of (system_notify_settings r' 4) 2 = Some ECSACT_SYS_NOTIFY_ALWAYS"
    by (auto simp add: stype_def)
  from C2_notify_and_capability_order
    [where notify = "\<lparr>data = system_notify_statement ''onchange'', parameters = []\<rparr>"
       and setting_name = "''onchange''" and setting = ECSACT_SYS_NOTIFY_ONCHANGE
       and context_stack = "[\<lparr>data = system_statement ''Move'', parameters = []\<rparr>]"
       and r = capability_registry and package_id = 1 and sys_like_id = 4
       and statement = "\<lparr>data = system_component_statement 1 ''lib.Position'' [],
                          parameters = []\<rparr>"
       and capability = 1 and comp_name = "''lib.Position''" and with_list = "[]"
       and sn = "''Move''" and comp_like_id = 2 and ndebug = False and assoc_id = None]
    b(2) c(2,3)
  have g: "\<exists>r'. eval_system_notify_statement capability_registry 1
               [\<lparr>data = system_statement ''Move'', parameters = []\<rparr>]
               \<lparr>data = system_notify_statement ''onchange'', parameters = []\<rparr>
             = Return eval_ok r'
           \<and> map_of (system_notify_settings r' 4) 2 = Some ECSACT_SYS_NOTIFY_ONCHANGE"
    by (auto simp add: stype_def)
  from C2_notify_and_capability_order
    [where notify = "\<lparr>data = system_notify_statement ''bogus'', parameters = []\<rparr>"
       and setting_name = "''bogus''" and setting = ECSACT_SYS_NOTIFY_ALWAYS
       and context_stack = "[\<lparr>data = system_statement ''Move'', parameters = []\<rparr>]"
       and r = capability_registry and package_id = 1 and sys_like_id = 4
       and statement = "\<lparr>data = system_component_statement 1 ''lib.Position'' [],
                          parameters = []\<rparr>"
       and capability = 1 and comp_name = "''lib.Position''" and with_list = "[]"
       and sn = "''Move''" and comp_like_id = 2 and ndebug = False and assoc_id = None]
    b(2) c(2,3)
  have h: "eval_system_notify_statement capability_registry 1
        [\<lparr>data = system_statement ''Move'', parameters = []\<rparr>]
        \<lparr>data = system_notify_statement ''bogus'', parameters = []\<rparr>
      = Return (eval_error ECSACT_EVAL_ERR_INVALID_NOTIFY_SETTING ''bogus'')
          capability_registry"
    by (simp add: stype_def)
  from a b c e f g h show ?thesis by simp
qed

section \<open>Streams that the evaluator mishandles\<close>

text \<open>
  Claim C5 holds of the intent of the check but not of the code: the check for a second
  notify statement counts the notify settings of the system-like, so a notify statement
  that registered no setting is not seen.  In \<^verbatim>\<open>system S { readwrite C; notify { }
  notify always; }\<close> and in \<^verbatim>\<open>system S { notify always; notify onchange; }\<close>
  every statement returns OK, the second notify statement included; only when the
  first notify statement registered a setting does the second one fail with
  \<^verbatim>\<open>MULTIPLE_NOTIFY_STATEMENTS\<close>.
\<close>

theorem C5_second_notify_statement_accepted:
  "returned_code (eval_stream False game_registry 0
     [[stmt (component_statement ''C'')],
      [stmt (system_statement ''S'')],
      [stmt (system_statement ''S''), stmt (system_component_statement 3 ''C'' [])],
      [stmt (system_statement ''S''), stmt (system_notify_statement [])],
      [stmt (system_statement ''S''), stmt (system_notify_statement ''always'')]])
   = Some ECSACT_EVAL_OK
   \<and> returned_code (eval_stream False game_registry 0
     [[stmt (system_statement ''S'')],
      [stmt (system_statement ''S''), stmt (system_notify_statement ''always'')],
      [stmt (system_statement ''S''), stmt (system_notify_statement ''onchange'')]])
   = Some ECSACT_EVAL_OK
   \<and> returned_code (eval_stream False game_registry 0
     [[stmt (component_statement ''C'')],
      [stmt (system_statement ''S'')],
      [stmt (system_statement ''S''), stmt (system_component_statement 3 ''C'' [])],
      [stmt (system_statement ''S''), stmt (system_notify_statement ''always'')],
      [stmt (system_statement ''S''), stmt (system_notify_statement ''always'')]])
   = Some ECSACT_EVAL_ERR_MULTIPLE_NOTIFY_STATEMENTS"
  by code_simp

text \<open>
  Claim C8 fails on the code: \<^verbatim>\<open>ecsact_eval_statement\<close> does not return on every
  stack.  After \<^verbatim>\<open>component C { entity x; } component D {} system S {\<close> the
  stack \<^verbatim>\<open>S, readwrite C with x, readwrite D\<close>, whose parent names an association
  that was never registered, ends in the failed assertion of
  \<^verbatim>\<open>find_assoc_ids_with_fields\<close>, and with \<^verbatim>\<open>NDEBUG\<close> in the exception of
  \<^verbatim>\<open>assoc_ids.at(0)\<close>; so does the stack \<^verbatim>\<open>S, readwrite C, with x, readwrite
  D\<close>.  The same happens in a stream in which every earlier statement was evaluated and
  returned OK, when the parent is \<^verbatim>\<open>readwrite C with x, x\<close>: the association is
  registered with the field twice, and the count of matching fields then differs from
  the count of its fields.
\<close>

theorem C8_eval_statement_does_not_return:
  "returned_code (eval_stream False game_registry 0
     [[stmt (component_statement ''C'')],
      [stmt (component_statement ''C''),
       stmt (entity_field_statement ECSACT_ENTITY_TYPE ''x'' 0)],
      [stmt (component_statement ''D'')],
      [stmt (system_statement ''S'')]])
   = Some ECSACT_EVAL_OK
   \<and> raised_fault (eval_stream False game_registry 0
     [[stmt (component_statement ''C'')],
      [stmt (component_statement ''C''),
       stmt (entity_field_statement ECSACT_ENTITY_TYPE ''x'' 0)],
      [stmt (component_statement ''D'')],
      [stmt (system_statement ''S'')],
      [stmt (system_statement ''S''), stmt (system_component_statement 3 ''C'' [''x'']),
       stmt (system_component_statement 3 ''D'' [])]])
   = Some assertion_failed
   \<and> raised_fault (eval_stream True game_registry 0
     [[stmt (component_statement ''C'')],
      [stmt (component_statement ''C''),
       stmt (entity_field_statement ECSACT_ENTITY_TYPE ''x'' 0)],
      [stmt (component_statement ''D'')],
      [stmt (system_statement ''S'')],
      [stmt (system_statement ''S''), stmt (system_component_statement 3 ''C'' [''x'']),
       stmt (system_component_statement 3 ''D'' [])]])
   = Some out_of_range_thrown
   \<and> raised_fault (eval_stream False game_registry 0
     [[stmt (component_statement ''C'')],
      [stmt (component_statement ''C''),
       stmt (entity_field_statement ECSACT_ENTITY_TYPE ''x'' 0)],
      [stmt (component_statement ''D'')],
      [stmt (system_statement ''S'')],
      [stmt (system_statement ''S''), stmt (system_component_statement 3 ''C'' []),
       stmt (system_with_statement [''x'']), stmt (system_component_statement 3 ''D'' [])]])
   = Some assertion_failed
   \<and> raised_fault (eval_stream True game_registry 0
     [[stmt (component_statement ''C'')],
      [stmt (component_statement ''C''),
       stmt (entity_field_statement ECSACT_ENTITY_TYPE ''x'' 0)],
      [stmt (component_statement ''D'')],
      [stmt (system_statement ''S'')],
      [stmt (system_statement ''S''), stmt (system_component_statement 3 ''C'' []),
       stmt (system_with_statement [''x'']), stmt (system_component_statement 3 ''D'' [])]])
   = Some out_of_range_thrown
   \<and> returned_code (eval_stream False game_registry 0
     [[stmt (component_statement ''C'')],
      [stmt (component_statement ''C''),
       stmt (entity_field_statement ECSACT_ENTITY_TYPE ''x'' 0)],
      [stmt (component_statement ''D'')],
      [stmt (system_statement ''S'')],
      [stmt (system_statement ''S''),
       stmt (system_component_statement 3 ''C'' [''x'', ''x''])]])
   = Some ECSACT_EVAL_OK
   \<and> raised_fault (eval_stream False game_registry 0
     [[stmt (component_statement ''C'')],
      [stmt (component_statement ''C''),
       stmt (entity_field_statement ECSACT_ENTITY_TYPE ''x'' 0)],
      [stmt (component_statement ''D'')],
      [stmt (system_statement ''S'')],
      [stmt (system_statement ''S''),
       stmt (system_component_statement 3 ''C'' [''x'', ''x''])],
      [stmt (system_statement ''S''),
       stmt (system_component_statement 3 ''C'' [''x'', ''x'']),
       stmt (system_component_statement 3 ''D'' [])]])
   = Some assertion_failed
   \<and> raised_fault (eval_stream True game_registry 0
     [[stmt (component_statement ''C'')],
      [stmt (component_statement ''C''),
       stmt (entity_field_statement ECSACT_ENTITY_TYPE ''x'' 0)],
      [stmt (component_statement ''D'')],
      [stmt (system_statement ''S'')],
      [stmt (system_statement ''S''),
       stmt (system_component_statement 3 ''C'' [''x'', ''x''])],
      [stmt (system_statement ''S''),
       stmt (system_component_statement 3 ''C'' [''x'', ''x'']),
       stmt (system_component_statement 3 ''D'' [])]])
   = Some out_of_range_thrown"
  by code_simp

end
